theory Spec2Isabelle
  imports Complex_Main "HOL-Library.Sublist"
begin

section \<open>Message model (verifai/models/messages.py)\<close>

text \<open>
  Python floats are only ever compared in the code modelled here (never added or
  multiplied), so a float is its exact value: a rational for a finite float, or one of
  the three special values. The comparisons below are the IEEE ones: every comparison
  with NaN is false.
\<close>

datatype pyfloat = Finite rat | PosInf | NegInf | NaN

fun float_lt :: "pyfloat \<Rightarrow> pyfloat \<Rightarrow> bool" where
  "float_lt NaN _ = False"
| "float_lt _ NaN = False"
| "float_lt (Finite a) (Finite b) = (a < b)"
| "float_lt NegInf NegInf = False"
| "float_lt NegInf _ = True"
| "float_lt _ NegInf = False"
| "float_lt PosInf _ = False"
| "float_lt _ PosInf = True"

fun float_ge :: "pyfloat \<Rightarrow> pyfloat \<Rightarrow> bool" where
  "float_ge NaN _ = False"
| "float_ge _ NaN = False"
| "float_ge a b = (\<not> float_lt a b)"

text \<open>Values of type \<open>Any\<close> that come out of \<open>json.loads\<close>; \<open>dict[str, Any]\<close> is a
  key/value list in insertion order.\<close>

datatype json =
    JNull
  | JBool bool
  | JInt int
  | JFloat pyfloat
  | JStr string
  | JList "json list"
  | JDict "(string \<times> json) list"

datatype MessagePriority = LOW | NORMAL | HIGH | CRITICAL

text \<open>
  The fields each subclass of \<open>AgentMessage\<close> adds. The class of a message is the
  constructor of its \<open>body\<close>.
\<close>

datatype payload =
    is_PlanRequest: PlanRequest
      (component_name: string) (spec: "(string \<times> json) list")
      (instructions: string) (request_context: "(string \<times> json) list")
  | is_PlanResponse: PlanResponse
      (component_name: string) (proposed_code: string)
      (proposed_plan: "(string \<times> json) list") (response_notes: "string list")
      (confidence: pyfloat)
  | is_ReviewFeedback: ReviewFeedback
      (component_name: string) (approved: bool) (issues: "string list")
      (suggestions: "string list") (revised_spec: "(string \<times> json) list")
  | is_InterfaceContract: InterfaceContract
      (interface_name: string) (transaction_type: string)
      (fields: "(string \<times> json) list list") (constraints: "string list")
      (protocol_notes: string)
  | is_SequenceProposal: SequenceProposal
      (sequence_name: string) (target_scenario: string) (sequence_code: string)
      (expected_coverage_impact: "string list")
  | is_CoverageReport: CoverageReport
      (overall_coverage: pyfloat) (coverage_bins: "(string \<times> pyfloat) list")
      (uncovered_scenarios: "string list") (suggestions: "string list")
  | is_CoverageDirective: CoverageDirective
      (target_bins: "string list") (target_scenarios: "string list")
      (constraints: "string list") (priority_order: "string list")
  | is_CodeArtifact: CodeArtifact
      (filename: string) (content: string) (language: string)
      (component_type: string) (overwrite: bool)

text \<open>
  The fields of the base class. \<open>msg_id\<close> is the field \<open>id\<close>; it and \<open>timestamp\<close> are
  filled by \<open>uuid4\<close> and the clock when a message is constructed, so whoever constructs a
  message in the model is handed both.
\<close>

record AgentMessage =
  msg_id :: string
  sender :: string
  recipient :: string
  timestamp :: nat
  priority :: MessagePriority
  correlation_id :: "string option"
  metadata :: "(string \<times> json) list"
  body :: payload

section \<open>Dialogue manager (verifai/comms/dialogue.py)\<close>

datatype DialogueState =
  PENDING | IN_PROGRESS | AWAITING_REVIEW | REVISION_REQUESTED | APPROVED | FAILED

record DialogueEntry =
  correlation_id :: string
  requester :: string
  responder :: string
  state :: DialogueState
  request :: "AgentMessage option"
  response :: "AgentMessage option"
  feedback :: "AgentMessage option"
  revision_count :: int
  max_revisions :: int

text \<open>The manager: the dict \<open>_dialogues\<close> and the configured \<open>_max_revisions\<close>.\<close>

record DialogueManager =
  dialogues :: "string \<rightharpoonup> DialogueEntry"
  max_revisions :: int

definition DialogueManager_init :: "int \<Rightarrow> DialogueManager" where
  "DialogueManager_init n = \<lparr>dialogues = Map.empty, max_revisions = n\<rparr>"

text \<open>
  Every method mutates the manager in place and returns an entry (or \<open>None\<close>); the model
  returns the pair of the returned value and the manager afterwards.
\<close>

definition start_dialogue ::
  "DialogueManager \<Rightarrow> AgentMessage \<Rightarrow> DialogueEntry \<times> DialogueManager" where
  "start_dialogue mgr req =
     (let entry = \<lparr>DialogueEntry.correlation_id = msg_id req,
                   requester = sender req,
                   responder = recipient req,
                   state = IN_PROGRESS,
                   request = Some req,
                   response = None,
                   feedback = None,
                   revision_count = 0,
                   max_revisions = DialogueManager.max_revisions mgr\<rparr>
      in (entry, mgr\<lparr>dialogues := (dialogues mgr)(msg_id req \<mapsto> entry)\<rparr>))"

text \<open>\<open>if not cid or cid not in self._dialogues\<close>: \<open>None\<close> and the empty string are
  both falsy.\<close>

definition find_dialogue :: "DialogueManager \<Rightarrow> string option \<Rightarrow> (string \<times> DialogueEntry) option" where
  "find_dialogue mgr c =
     (case c of
        None \<Rightarrow> None
      | Some cid \<Rightarrow>
          if cid = [] then None
          else (case dialogues mgr cid of None \<Rightarrow> None | Some entry \<Rightarrow> Some (cid, entry)))"

definition record_response ::
  "DialogueManager \<Rightarrow> AgentMessage \<Rightarrow> DialogueEntry option \<times> DialogueManager" where
  "record_response mgr resp =
     (case find_dialogue mgr (AgentMessage.correlation_id resp) of
        None \<Rightarrow> (None, mgr)
      | Some (cid, entry) \<Rightarrow>
          (let entry' = entry\<lparr>response := Some resp, state := AWAITING_REVIEW\<rparr>
           in (Some entry', mgr\<lparr>dialogues := (dialogues mgr)(cid \<mapsto> entry')\<rparr>)))"

definition record_feedback ::
  "DialogueManager \<Rightarrow> AgentMessage \<Rightarrow> DialogueEntry option \<times> DialogueManager" where
  "record_feedback mgr fb =
     (case find_dialogue mgr (AgentMessage.correlation_id fb) of
        None \<Rightarrow> (None, mgr)
      | Some (cid, entry) \<Rightarrow>
          (let e1 = entry\<lparr>feedback := Some fb\<rparr>;
               entry' =
                 (if approved (body fb) then e1\<lparr>state := APPROVED\<rparr>
                  else
                    (let e2 = e1\<lparr>revision_count := revision_count e1 + 1\<rparr>
                     in if revision_count e2 \<ge> DialogueEntry.max_revisions e2
                        then e2\<lparr>state := FAILED\<rparr>
                        else e2\<lparr>state := REVISION_REQUESTED\<rparr>))
           in (Some entry', mgr\<lparr>dialogues := (dialogues mgr)(cid \<mapsto> entry')\<rparr>)))"

definition get_dialogue :: "DialogueManager \<Rightarrow> string \<Rightarrow> DialogueEntry option" where
  "get_dialogue mgr cid = dialogues mgr cid"

section \<open>Message bus (uvm_ai/comms/message_bus.py)\<close>

text \<open>
  A subscriber is a coroutine function (\<open>async def\<close>): calling it only creates the
  coroutine, and its body runs when \<open>asyncio.gather\<close> awaits it. The type \<open>'h\<close> names the
  subscribers, with the equality Python's \<open>in\<close> and \<open>list.remove\<close> use.

  The body of a subscriber holds the bus and may call any of its operations before it
  returns, \<open>publish\<close> included (the agents of the repository answer a message by sending
  another one). So what the body of a subscriber does on a message is a function from the
  bus it starts on to the way it ends and the bus it leaves behind. \<open>gather\<close> starts the
  coroutines in the order of its arguments; here each body runs to its end before the next
  one starts. The lock around the history append orders concurrent publishers and has no
  counterpart here.
\<close>

datatype handler_outcome = Returned | Raised string

text \<open>The classes a type subscription can name, and \<open>isinstance\<close> on them.\<close>

datatype msg_class =
    AgentMessage_class | PlanRequest_class | PlanResponse_class | ReviewFeedback_class
  | InterfaceContract_class | SequenceProposal_class | CoverageReport_class
  | CoverageDirective_class | CodeArtifact_class

fun class_of :: "payload \<Rightarrow> msg_class" where
  "class_of (PlanRequest _ _ _ _) = PlanRequest_class"
| "class_of (PlanResponse _ _ _ _ _) = PlanResponse_class"
| "class_of (ReviewFeedback _ _ _ _ _) = ReviewFeedback_class"
| "class_of (InterfaceContract _ _ _ _ _) = InterfaceContract_class"
| "class_of (SequenceProposal _ _ _ _) = SequenceProposal_class"
| "class_of (CoverageReport _ _ _ _) = CoverageReport_class"
| "class_of (CoverageDirective _ _ _ _) = CoverageDirective_class"
| "class_of (CodeArtifact _ _ _ _ _) = CodeArtifact_class"

definition isinstance :: "AgentMessage \<Rightarrow> msg_class \<Rightarrow> bool" where
  "isinstance m c = (c = AgentMessage_class \<or> c = class_of (body m))"

text \<open>
  \<open>_subscribers\<close> is a \<open>defaultdict(list)\<close> that is only read by key: a total function
  with \<open>[]\<close> for a missing key. \<open>_type_subscribers\<close> is iterated with \<open>items()\<close>, so it
  keeps its keys in insertion order.
\<close>

record 'h MessageBus =
  subscribers :: "string \<Rightarrow> 'h list"
  type_subscribers :: "(msg_class \<times> 'h list) list"
  history :: "AgentMessage list"

type_synonym 'h subscriber_body =
  "'h \<Rightarrow> AgentMessage \<Rightarrow> 'h MessageBus \<Rightarrow> handler_outcome \<times> 'h MessageBus"

definition MessageBus_init :: "'h MessageBus" where
  "MessageBus_init = \<lparr>subscribers = (\<lambda>_. []), type_subscribers = [], history = []\<rparr>"

definition subscribe :: "'h MessageBus \<Rightarrow> string \<Rightarrow> 'h \<Rightarrow> 'h MessageBus" where
  "subscribe bus channel callback =
     bus\<lparr>subscribers := (subscribers bus)(channel := subscribers bus channel @ [callback])\<rparr>"

text \<open>\<open>d[k].append(v)\<close> on a \<open>defaultdict(list)\<close>: a new key goes to the end.\<close>

fun defaultdict_append :: "('k \<times> 'v list) list \<Rightarrow> 'k \<Rightarrow> 'v \<Rightarrow> ('k \<times> 'v list) list" where
  "defaultdict_append [] k v = [(k, [v])]"
| "defaultdict_append ((k', vs) # rest) k v =
     (if k' = k then (k', vs @ [v]) # rest else (k', vs) # defaultdict_append rest k v)"

definition subscribe_type :: "'h MessageBus \<Rightarrow> msg_class \<Rightarrow> 'h \<Rightarrow> 'h MessageBus" where
  "subscribe_type bus msg_type callback =
     bus\<lparr>type_subscribers := defaultdict_append (type_subscribers bus) msg_type callback\<rparr>"

text \<open>\<open>list.remove\<close> deletes the first equal element: \<open>remove1\<close>.\<close>

definition unsubscribe :: "'h MessageBus \<Rightarrow> string \<Rightarrow> 'h \<Rightarrow> 'h MessageBus" where
  "unsubscribe bus channel callback =
     (let subs = subscribers bus channel
      in if callback \<in> set subs
         then bus\<lparr>subscribers := (subscribers bus)(channel := remove1 callback subs)\<rparr>
         else bus)"

text \<open>
  \<open>asyncio.gather(*tasks, return_exceptions=...)\<close> runs every task to its end:
  \<open>run_tasks\<close> gives the outcomes in the order of the tasks and the bus after the last
  one. With \<open>return_exceptions=False\<close> the first exception is raised to the awaiting
  caller; with \<open>True\<close> exceptions are returned in the result list like any other result.
\<close>

fun run_tasks ::
  "'h subscriber_body \<Rightarrow> ('h \<times> AgentMessage) list \<Rightarrow> 'h MessageBus
     \<Rightarrow> handler_outcome list \<times> 'h MessageBus" where
  "run_tasks run [] b = ([], b)"
| "run_tasks run ((cb, m) # tasks) b =
     (case run cb m b of
        (out, b1) \<Rightarrow> (case run_tasks run tasks b1 of (outs, b2) \<Rightarrow> (out # outs, b2)))"

fun first_raised :: "handler_outcome list \<Rightarrow> string option" where
  "first_raised [] = None"
| "first_raised (Returned # outs) = first_raised outs"
| "first_raised (Raised e # outs) = Some e"

definition gather :: "bool \<Rightarrow> handler_outcome list \<Rightarrow> string + handler_outcome list" where
  "gather return_exceptions outs =
     (if return_exceptions then Inr outs
      else (case first_raised outs of Some e \<Rightarrow> Inl e | None \<Rightarrow> Inr outs))"

text \<open>
  What one call of \<open>publish\<close> does: \<open>call_result\<close> is how the call ends for its caller
  (\<open>Inl\<close> an exception raised to the caller), \<open>invoked\<close> lists the subscriber calls
  \<open>cb(message)\<close> in the order the two loops make them, \<open>bus_after\<close> is the bus when
  the call returns, after every subscriber body has run.
\<close>

record 'h publish_result =
  call_result :: "string + unit"
  invoked :: "('h \<times> AgentMessage) list"
  bus_after :: "'h MessageBus"

definition channel_tasks :: "'h MessageBus \<Rightarrow> string \<Rightarrow> AgentMessage \<Rightarrow> ('h \<times> AgentMessage) list" where
  "channel_tasks bus channel message = map (\<lambda>cb. (cb, message)) (subscribers bus channel)"

definition type_tasks :: "'h MessageBus \<Rightarrow> AgentMessage \<Rightarrow> ('h \<times> AgentMessage) list" where
  "type_tasks bus message =
     concat (map (\<lambda>(msg_type, cbs).
                    if isinstance message msg_type then map (\<lambda>cb. (cb, message)) cbs else [])
                 (type_subscribers bus))"

definition publish ::
  "'h subscriber_body \<Rightarrow> 'h MessageBus \<Rightarrow> string \<Rightarrow> AgentMessage \<Rightarrow> 'h publish_result" where
  "publish run bus channel message =
     (let bus1 = bus\<lparr>history := history bus @ [message]\<rparr>;
          tasks = channel_tasks bus1 channel message @ type_tasks bus1 message
      in if tasks \<noteq> []
         then (case run_tasks run tasks bus1 of
                 (outs, bus2) \<Rightarrow>
                   \<lparr>call_result = (case gather True outs of Inl e \<Rightarrow> Inl e | Inr _ \<Rightarrow> Inr ()),
                    invoked = tasks, bus_after = bus2\<rparr>)
         else \<lparr>call_result = Inr (), invoked = tasks, bus_after = bus1\<rparr>)"

definition send ::
  "'h subscriber_body \<Rightarrow> 'h MessageBus \<Rightarrow> AgentMessage \<Rightarrow> 'h publish_result" where
  "send run bus message = publish run bus (recipient message) message"

definition get_history_for :: "'h MessageBus \<Rightarrow> string \<Rightarrow> AgentMessage list" where
  "get_history_for bus agent_name =
     filter (\<lambda>m. sender m = agent_name \<or> recipient m = agent_name) (history bus)"

definition clear_history :: "'h MessageBus \<Rightarrow> 'h MessageBus" where
  "clear_history bus = bus\<lparr>history := []\<rparr>"

text \<open>
  The operations the bus exposes, as values, so that a statement can range over all of
  them and over sequences of them. Reading \<open>history\<close> or \<open>get_history_for\<close> returns a new
  list and leaves the bus as it is.
\<close>

datatype 'h bus_op =
    Subscribe string 'h
  | SubscribeType msg_class 'h
  | Unsubscribe string 'h
  | Publish string AgentMessage
  | Send AgentMessage
  | History
  | GetHistoryFor string
  | ClearHistory

fun apply_op :: "'h subscriber_body \<Rightarrow> 'h MessageBus \<Rightarrow> 'h bus_op \<Rightarrow> 'h MessageBus" where
  "apply_op run bus (Subscribe c h) = subscribe bus c h"
| "apply_op run bus (SubscribeType t h) = subscribe_type bus t h"
| "apply_op run bus (Unsubscribe c h) = unsubscribe bus c h"
| "apply_op run bus (Publish c m) = bus_after (publish run bus c m)"
| "apply_op run bus (Send m) = bus_after (send run bus m)"
| "apply_op run bus History = bus"
| "apply_op run bus (GetHistoryFor a) = bus"
| "apply_op run bus ClearHistory = clear_history bus"

fun apply_ops ::
  "'h subscriber_body \<Rightarrow> 'h MessageBus \<Rightarrow> 'h bus_op list \<Rightarrow> 'h MessageBus" where
  "apply_ops run bus [] = bus"
| "apply_ops run bus (op # ops) = apply_ops run (apply_op run bus op) ops"

text \<open>
  Two things a statement may ask of the subscriber bodies: that none of them takes a
  message out of the history (none calls \<open>clear_history\<close>; they may publish), or that none
  of them changes the history at all (none publishes either).
\<close>

definition appends_only :: "'h subscriber_body \<Rightarrow> bool" where
  "appends_only run = (\<forall>h m b. prefix (history b) (history (snd (run h m b))))"

definition keeps_history :: "'h subscriber_body \<Rightarrow> bool" where
  "keeps_history run = (\<forall>h m b. history (snd (run h m b)) = history b)"

section \<open>Plans and DUT specifications (verifai/models/tb_plan.py, dut_spec.py)\<close>

record SequencePlan =
  name :: string
  description :: string
  target_agent :: string
  scenario :: string
  constraints :: "string list"
  coverage_targets :: "string list"

record AgentPlan =
  name :: string
  interface_name :: string
  protocol_type :: string
  is_active :: bool
  has_scoreboard :: bool
  sequences :: "SequencePlan list"
  description :: string

record TestbenchPlan =
  name :: string
  dut_name :: string
  agents :: "AgentPlan list"
  top_module_name :: string
  clock_period_ns :: pyfloat
  reset_duration_ns :: pyfloat
  simulation_timeout_ns :: pyfloat
  coverage_target :: pyfloat
  description :: string
  additional_notes :: "string list"

text \<open>\<open>model_post_init\<close>, and the constructor call of the fallback in \<open>analyze_dut\<close>, which
  passes three strings and leaves every other field at its default.\<close>

definition TestbenchPlan_post_init :: "TestbenchPlan \<Rightarrow> TestbenchPlan" where
  "TestbenchPlan_post_init p =
     (if top_module_name p = [] then p\<lparr>top_module_name := ''tb_'' @ dut_name p @ ''_top''\<rparr>
      else p)"

definition TestbenchPlan_init :: "string \<Rightarrow> string \<Rightarrow> string \<Rightarrow> TestbenchPlan" where
  "TestbenchPlan_init n d descr =
     TestbenchPlan_post_init
       \<lparr>TestbenchPlan.name = n, dut_name = d, agents = [], top_module_name = [],
        clock_period_ns = Finite 10, reset_duration_ns = Finite 100,
        simulation_timeout_ns = Finite 100000, coverage_target = Finite 95,
        description = descr, additional_notes = []\<rparr>"

datatype PortDirection = INPUT | OUTPUT | INOUT

record PortSpec =
  name :: string
  direction :: PortDirection
  width :: int
  description :: string
  is_clock :: bool
  is_reset :: bool

record ParameterSpec =
  name :: string
  datatype_name :: string
  default_value :: string
  description :: string

record ProtocolSpec =
  name :: string
  port_names :: "string list"
  protocol_type :: string
  description :: string

record DUTSpec =
  name :: string
  "module_name" :: string
  ports :: "PortSpec list"
  parameters :: "ParameterSpec list"
  protocols :: "ProtocolSpec list"
  description :: string
  clock_name :: string
  reset_name :: string
  reset_active_low :: bool

section \<open>Agents (uvm_ai/agents/base.py, verifai/agents/orchestrator.py)\<close>

record AgentConfig =
  model :: string
  max_tokens :: int
  temperature :: pyfloat
  max_retries :: int
  system_prompt_override :: string

text \<open>
  What the orchestrator calls outside this repository, with an exception as \<open>Inl\<close> of
  its name: the generation service (\<open>client.messages.create\<close> and the read of
  \<open>response.content[0].text\<close>), \<open>json.loads\<close>, the pydantic validation of
  \<open>TestbenchPlan(**plan_data)\<close> and of the three review fields given to
  \<open>ReviewFeedback(...)\<close>, and \<open>model_dump_json\<close>. \<open>run_handler\<close> is the body of each
  subscriber of the bus.
\<close>

record 'h collaborators =
  run_handler :: "'h subscriber_body"
  llm_create :: "AgentConfig \<Rightarrow> string \<Rightarrow> (string \<times> string) list \<Rightarrow> string + string"
  json_loads :: "string \<Rightarrow> string + json"
  validate_plan :: "json \<Rightarrow> string + TestbenchPlan"
  validate_review :: "json \<Rightarrow> json \<Rightarrow> json \<Rightarrow> string + (bool \<times> string list \<times> string list)"
  model_dump_json :: "DUTSpec \<Rightarrow> string"

subsection \<open>\<open>_extract_json\<close>\<close>

text \<open>
  Strings are lists of characters with code points below 256; these are the ones among
  them that \<open>str.strip\<close> removes. \<open>py_find\<close> and \<open>py_rfind\<close> return \<open>None\<close> where Python
  returns \<open>-1\<close>.
\<close>

definition py_isspace :: "char \<Rightarrow> bool" where
  "py_isspace c = ((of_char c :: nat) \<in> set [9, 10, 11, 12, 13, 28, 29, 30, 31, 32, 133, 160])"

definition rstrip :: "string \<Rightarrow> string" where
  "rstrip s = rev (dropWhile py_isspace (rev s))"

definition strip :: "string \<Rightarrow> string" where
  "strip s = rstrip (dropWhile py_isspace s)"

fun py_find :: "string \<Rightarrow> string \<Rightarrow> nat option" where
  "py_find [] sub = (if sub = [] then Some 0 else None)"
| "py_find (c # cs) sub =
     (if prefix sub (c # cs) then Some 0 else map_option Suc (py_find cs sub))"

fun py_rfind :: "string \<Rightarrow> string \<Rightarrow> nat option" where
  "py_rfind [] sub = (if sub = [] then Some 0 else None)"
| "py_rfind (c # cs) sub =
     (case py_rfind cs sub of
        Some i \<Rightarrow> Some (Suc i)
      | None \<Rightarrow> if prefix sub (c # cs) then Some 0 else None)"

definition strip_fences :: "string \<Rightarrow> string" where
  "strip_fences text0 =
     (let text1 = strip text0
      in if prefix ''```'' text1
         then (let text2 = (case py_find text1 ''\<newline>'' of
                              Some first_nl \<Rightarrow> drop (first_nl + 1) text1
                            | None \<Rightarrow> drop 3 text1)
               in case py_rfind text2 ''```'' of
                    Some last_fence \<Rightarrow> rstrip (take last_fence text2)
                  | None \<Rightarrow> text2)
         else text1)"

definition extract_json :: "'h collaborators \<Rightarrow> string \<Rightarrow> string + json" where
  "extract_json env text0 = json_loads env (strip_fences text0)"

subsection \<open>The agent\<close>

text \<open>
  The fields of \<open>BaseAgent\<close> and \<open>OrchestratorAgent\<close> that the methods below read or
  write. \<open>call_llm\<close> and \<open>send_message\<close> are the base class's, as uvm_ai/agents/base.py has
  them, and the bus is the one of uvm_ai/comms/message_bus.py. What the subscribers
  reached by a \<open>send_message\<close> do in turn, they do to the bus, inside that call. \<open>bus\<close> is the state of the bus the agent holds a reference to, \<open>project_files\<close>
  the dict \<open>project._files\<close>. A method returns how it ends (\<open>Inl\<close> an exception) together
  with the agent afterwards.
\<close>

record 'h OrchestratorAgent =
  name :: string
  config :: AgentConfig
  bus :: "'h MessageBus"
  conversation :: "(string \<times> string) list"
  dialogue_mgr :: DialogueManager
  plan :: "TestbenchPlan option"
  artifacts :: "AgentMessage list"
  project_files :: "string \<rightharpoonup> string"

definition system_prompt :: string where
  "system_prompt =
     ''You are the Orchestrator Agent in a UVM testbench generation system. '' @
     ''Your role is to:\<newline>'' @
     ''1. Analyze DUT specifications and create comprehensive testbench plans.\<newline>'' @
     ''2. Delegate work to specialized sub-agents (environment, UVM agent, '' @
     ''sequence, scoreboard).\<newline>'' @
     ''3. Review generated artifacts for correctness and consistency.\<newline>'' @
     ''4. Drive coverage closure by analyzing gaps and directing new stimulus.\<newline>\<newline>'' @
     ''Always respond with valid JSON when asked for structured data. '' @
     ''Be precise about UVM component naming, port connections, and '' @
     ''SystemVerilog types.''"

text \<open>The constructor subscribes the agent's own \<open>_handle_message\<close>, here \<open>self_handler\<close>,
  to the channel of its name.\<close>

definition OrchestratorAgent_init ::
  "AgentConfig \<Rightarrow> 'h MessageBus \<Rightarrow> DialogueManager \<Rightarrow> 'h \<Rightarrow> 'h OrchestratorAgent" where
  "OrchestratorAgent_init cfg b mgr self_handler =
     \<lparr>OrchestratorAgent.name = ''orchestrator'', config = cfg,
      bus = subscribe b ''orchestrator'' self_handler, conversation = [],
      dialogue_mgr = mgr, plan = None, artifacts = [], project_files = Map.empty\<rparr>"

definition call_llm ::
  "'h collaborators \<Rightarrow> 'h OrchestratorAgent \<Rightarrow> string \<Rightarrow> (string + string) \<times> 'h OrchestratorAgent" where
  "call_llm env agent user_prompt =
     (let conv = conversation agent @ [(''user'', user_prompt)];
          system = (if system_prompt_override (config agent) \<noteq> []
                    then system_prompt_override (config agent) else system_prompt)
      in case llm_create env (config agent) system conv of
           Inl e \<Rightarrow> (Inl e, agent\<lparr>conversation := conv\<rparr>)
         | Inr assistant_text \<Rightarrow>
             (Inr assistant_text,
              agent\<lparr>conversation := conv @ [(''assistant'', assistant_text)]\<rparr>))"

definition send_message ::
  "'h collaborators \<Rightarrow> 'h OrchestratorAgent \<Rightarrow> AgentMessage \<Rightarrow> (string + unit) \<times> 'h OrchestratorAgent" where
  "send_message env agent message =
     (let r = send (run_handler env) (bus agent) message
      in (call_result r, agent\<lparr>bus := bus_after r\<rparr>))"

definition analyze_prompt :: "'h collaborators \<Rightarrow> DUTSpec \<Rightarrow> string" where
  "analyze_prompt env dut_spec =
     ''Analyze this DUT and create a UVM testbench plan.\<newline>\<newline>'' @
     ''DUT: '' @ model_dump_json env dut_spec @ ''\<newline>\<newline>'' @
     ''Respond with a JSON object containing:\<newline>'' @
     ''- name: testbench name\<newline>'' @
     ''- dut_name: the DUT module name\<newline>'' @
     ''- agents: list of agent plans (name, interface_name, protocol_type, '' @
     ''is_active, has_scoreboard, sequences list)\<newline>'' @
     ''- clock_period_ns, reset_duration_ns, simulation_timeout_ns\<newline>'' @
     ''- coverage_target: target coverage percentage\<newline>'' @
     ''- description: brief description\<newline>''"

definition fallback_plan :: "DUTSpec \<Rightarrow> TestbenchPlan" where
  "fallback_plan dut_spec =
     TestbenchPlan_init (DUTSpec.name dut_spec @ ''_tb'') (module_name dut_spec)
       (''Auto-generated testbench for '' @ DUTSpec.name dut_spec)"

definition analyze_dut ::
  "'h collaborators \<Rightarrow> 'h OrchestratorAgent \<Rightarrow> DUTSpec
     \<Rightarrow> (string + TestbenchPlan) \<times> 'h OrchestratorAgent" where
  "analyze_dut env agent dut_spec =
     (case call_llm env agent (analyze_prompt env dut_spec) of
        (Inl e, agent1) \<Rightarrow> (Inl e, agent1)
      | (Inr llm_response, agent1) \<Rightarrow>
          (let p = (case extract_json env llm_response of
                      Inl exc \<Rightarrow> fallback_plan dut_spec
                    | Inr plan_data \<Rightarrow>
                        (case validate_plan env plan_data of
                           Inl exc \<Rightarrow> fallback_plan dut_spec
                         | Inr pl \<Rightarrow> pl))
           in (Inr p, agent1\<lparr>plan := Some p\<rparr>)))"

definition review_prompt :: "AgentMessage \<Rightarrow> string" where
  \<open>review_prompt resp =
     ''Review this generated UVM component for correctness.\<newline>\<newline>'' @
     ''Component: '' @ component_name (body resp) @ ''\<newline>'' @
     ''Code:\<newline>```systemverilog\<newline>'' @ proposed_code (body resp) @ ''\<newline>```\<newline>\<newline>'' @
     ''Respond with JSON: {"approved": true/false, '' @
     ''"issues": [...], "suggestions": [...]}''\<close>

text \<open>\<open>d.get(key, default)\<close>; on a value that is not a dict the attribute lookup raises
  \<open>AttributeError\<close>.\<close>

definition json_get :: "json \<Rightarrow> string \<Rightarrow> json \<Rightarrow> string + json" where
  "json_get d key dflt =
     (case d of
        JDict kvs \<Rightarrow> (case map_of kvs key of Some v \<Rightarrow> Inr v | None \<Rightarrow> Inr dflt)
      | _ \<Rightarrow> Inl ''AttributeError'')"

text \<open>The \<open>try\<close> block of \<open>_handle_plan_response\<close>: any exception in it gives the
  approving defaults.\<close>

definition review_fields :: "'h collaborators \<Rightarrow> string \<Rightarrow> json \<times> json \<times> json" where
  "review_fields env review_text =
     (case extract_json env review_text of
        Inl exc \<Rightarrow> (JBool True, JList [], JList [])
      | Inr review_data \<Rightarrow>
          (case json_get review_data ''approved'' (JBool True) of
             Inl exc \<Rightarrow> (JBool True, JList [], JList [])
           | Inr a \<Rightarrow>
               (case json_get review_data ''issues'' (JList []) of
                  Inl exc \<Rightarrow> (JBool True, JList [], JList [])
                | Inr i \<Rightarrow>
                    (case json_get review_data ''suggestions'' (JList []) of
                       Inl exc \<Rightarrow> (JBool True, JList [], JList [])
                     | Inr s \<Rightarrow> (a, i, s)))))"

text \<open>The handlers that construct a message take its id and timestamp as \<open>stamp\<close>.\<close>

definition handle_plan_response ::
  "'h collaborators \<Rightarrow> 'h OrchestratorAgent \<Rightarrow> string \<times> nat \<Rightarrow> AgentMessage
     \<Rightarrow> (string + unit) \<times> 'h OrchestratorAgent" where
  "handle_plan_response env agent stamp resp =
     (case record_response (dialogue_mgr agent) resp of
        (None, mgr1) \<Rightarrow> (Inr (), agent\<lparr>dialogue_mgr := mgr1\<rparr>)
      | (Some entry, mgr1) \<Rightarrow>
          (case call_llm env (agent\<lparr>dialogue_mgr := mgr1\<rparr>) (review_prompt resp) of
             (Inl e, agent2) \<Rightarrow> (Inl e, agent2)
           | (Inr review_text, agent2) \<Rightarrow>
               (case review_fields env review_text of
                  (a, i, s) \<Rightarrow>
                    (case validate_review env a i s of
                       Inl e \<Rightarrow> (Inl e, agent2)
                     | Inr (approved', issues', suggestions') \<Rightarrow>
                         (let fb = \<lparr>msg_id = fst stamp,
                                    sender = OrchestratorAgent.name agent2,
                                    recipient = sender resp,
                                    timestamp = snd stamp,
                                    priority = NORMAL,
                                    correlation_id = AgentMessage.correlation_id resp,
                                    metadata = [],
                                    body = ReviewFeedback (component_name (body resp))
                                             approved' issues' suggestions' []\<rparr>;
                              mgr2 = snd (record_feedback (dialogue_mgr agent2) fb)
                          in send_message env (agent2\<lparr>dialogue_mgr := mgr2\<rparr>) fb)))))"

definition handle_coverage_report ::
  "'h collaborators \<Rightarrow> 'h OrchestratorAgent \<Rightarrow> string \<times> nat \<Rightarrow> AgentMessage
     \<Rightarrow> (string + unit) \<times> 'h OrchestratorAgent" where
  "handle_coverage_report env agent stamp report =
     (if float_ge (overall_coverage (body report))
                 (case plan agent of Some p \<Rightarrow> coverage_target p | None \<Rightarrow> Finite 95)
      then (Inr (), agent)
      else
        (let directive =
               \<lparr>msg_id = fst stamp,
                sender = OrchestratorAgent.name agent,
                recipient = ''sequence_agent'',
                timestamp = snd stamp,
                priority = NORMAL,
                correlation_id = None,
                metadata = [],
                body = CoverageDirective
                         (map fst (filter (\<lambda>(k, v). float_lt v (Finite 100))
                                          (coverage_bins (body report))))
                         (uncovered_scenarios (body report)) [] []\<rparr>
         in send_message env agent directive))"

definition handle_sequence_proposal ::
  "'h OrchestratorAgent \<Rightarrow> string \<times> nat \<Rightarrow> AgentMessage
     \<Rightarrow> (string + unit) \<times> 'h OrchestratorAgent" where
  "handle_sequence_proposal agent stamp proposal =
     (let artifact =
            \<lparr>msg_id = fst stamp,
             sender = OrchestratorAgent.name agent,
             recipient = ''codegen'',
             timestamp = snd stamp,
             priority = NORMAL,
             correlation_id = None,
             metadata = [],
             body = CodeArtifact (''sequences/'' @ sequence_name (body proposal) @ ''.sv'')
                      (sequence_code (body proposal)) ''systemverilog'' ''sequence'' True\<rparr>
      in (Inr (),
          agent\<lparr>artifacts := artifacts agent @ [artifact],
                project_files := (project_files agent)
                   (filename (body artifact) \<mapsto> content (body artifact))\<rparr>))"

definition on_message ::
  "'h collaborators \<Rightarrow> 'h OrchestratorAgent \<Rightarrow> string \<times> nat \<Rightarrow> AgentMessage
     \<Rightarrow> (string + unit) \<times> 'h OrchestratorAgent" where
  "on_message env agent stamp message =
     (if is_PlanResponse (body message) then handle_plan_response env agent stamp message
      else if is_CoverageReport (body message) then handle_coverage_report env agent stamp message
      else if is_SequenceProposal (body message) then handle_sequence_proposal agent stamp message
      else if is_CodeArtifact (body message)
        then (Inr (),
              agent\<lparr>artifacts := artifacts agent @ [message],
                    project_files := (project_files agent)
                       (filename (body message) \<mapsto> content (body message))\<rparr>)
      else (Inr (), agent))"

section \<open>Concrete messages and managers used to evaluate the model\<close>

definition ex_request :: AgentMessage where
  "ex_request = \<lparr>msg_id = ''r1'', sender = ''orchestrator'', recipient = ''agent'', timestamp = 0,
     priority = NORMAL, correlation_id = None, metadata = [],
     body = PlanRequest ''comp'' [] [] []\<rparr>"

definition ex_response :: AgentMessage where
  "ex_response = \<lparr>msg_id = ''r2'', sender = ''agent'', recipient = ''orchestrator'', timestamp = 1,
     priority = NORMAL, correlation_id = Some ''r1'', metadata = [],
     body = PlanResponse ''comp'' [] [] [] (Finite 1)\<rparr>"

definition ex_rejection :: AgentMessage where
  "ex_rejection = \<lparr>msg_id = ''r3'', sender = ''orchestrator'', recipient = ''agent'', timestamp = 2,
     priority = NORMAL, correlation_id = Some ''r1'', metadata = [],
     body = ReviewFeedback ''comp'' False [''wrong ports''] [] []\<rparr>"

definition ex_approval :: AgentMessage where
  "ex_approval = \<lparr>msg_id = ''r4'', sender = ''orchestrator'', recipient = ''agent'', timestamp = 3,
     priority = NORMAL, correlation_id = Some ''r1'', metadata = [],
     body = ReviewFeedback ''comp'' True [] [] []\<rparr>"

text \<open>The manager of \<open>test_revision_cycle\<close> after its second rejection.\<close>

definition ex_failed_mgr :: DialogueManager where
  "ex_failed_mgr =
     snd (record_feedback
       (snd (record_feedback
         (snd (record_response
           (snd (start_dialogue (DialogueManager_init 2) ex_request))
           ex_response))
         ex_rejection))
       ex_rejection)"

text \<open>Subscribers are numbered. Under \<open>ex_run\<close> subscriber 1 raises on every message and
  the others return, none touching the bus. Under \<open>ex_run_replying\<close> subscribers 2 and 5
  answer every message by sending a proposal to the orchestrator before they return.\<close>

definition ex_run :: "nat subscriber_body" where
  "ex_run h m b = (if h = 1 then (Raised ''boom'', b) else (Returned, b))"

definition ex_proposal :: AgentMessage where
  "ex_proposal = \<lparr>msg_id = ''p1'', sender = ''sequence_agent'', recipient = ''orchestrator'',
     timestamp = 9, priority = NORMAL, correlation_id = None, metadata = [],
     body = SequenceProposal ''targeted_coverage_seq'' [] [] []\<rparr>"

definition ex_run_replying :: "nat subscriber_body" where
  "ex_run_replying h m b =
     (if h = 1 then (Raised ''boom'', b)
      else if h = 2 \<or> h = 5 then (Returned, bus_after (send ex_run b ex_proposal))
      else (Returned, b))"

definition ex_bus :: "nat MessageBus" where
  "ex_bus =
     subscribe_type
       (subscribe (subscribe (subscribe MessageBus_init ''agent'' 1) ''agent'' 2) ''other'' 3)
       CoverageReport_class 4"

definition ex_failing_bus :: "nat MessageBus" where
  "ex_failing_bus = subscribe_type ex_bus PlanRequest_class 6"

definition ex_typed_bus :: "nat MessageBus" where
  "ex_typed_bus = subscribe_type (subscribe MessageBus_init ''other'' 7) PlanRequest_class 7"

definition ex_published_bus :: "nat MessageBus" where
  "ex_published_bus = bus_after (publish ex_run ex_bus ''agent'' ex_request)"

definition ex_ops :: "nat bus_op list" where
  "ex_ops = [Subscribe ''x'' 9, Publish ''agent'' ex_request, Unsubscribe ''agent'' 1,
     Send ex_response, History, GetHistoryFor ''agent'', SubscribeType AgentMessage_class 8]"

text \<open>A generation service that answers without JSON, and one that answers with an empty
  JSON object inside a code fence; \<open>json.loads\<close> accepts only \<open>{}\<close>, and no plan validates.\<close>

definition ex_env :: "nat collaborators" where
  "ex_env = \<lparr>run_handler = ex_run,
     llm_create = (\<lambda>cfg sys conv. Inr ''Sorry, I have no plan.''),
     json_loads = (\<lambda>s. if s = ''{}'' then Inr (JDict []) else Inl ''JSONDecodeError''),
     validate_plan = (\<lambda>j. Inl ''ValidationError''),
     validate_review = (\<lambda>a i s. Inr (True, [], [])),
     model_dump_json = (\<lambda>d. DUTSpec.name d)\<rparr>"

definition ex_env_fenced :: "nat collaborators" where
  "ex_env_fenced = ex_env\<lparr>llm_create := (\<lambda>cfg sys conv. Inr ''```json\<newline>{}\<newline>```'')\<rparr>"

definition ex_env_replying :: "nat collaborators" where
  "ex_env_replying = ex_env\<lparr>run_handler := ex_run_replying\<rparr>"

definition ex_config :: AgentConfig where
  "ex_config = \<lparr>model = ''m'', max_tokens = 8192, temperature = Finite 0, max_retries = 3,
     system_prompt_override = []\<rparr>"

text \<open>An orchestrator with no plan yet, one tracked dialogue (\<open>r1\<close>) and one subscriber on
  the channel \<open>sequence_agent\<close>.\<close>

definition ex_agent :: "nat OrchestratorAgent" where
  "ex_agent = OrchestratorAgent_init ex_config (subscribe MessageBus_init ''sequence_agent'' 5)
     (snd (start_dialogue (DialogueManager_init 3) ex_request)) 0"

text \<open>The same orchestrator with a plan whose coverage target is 80.0.\<close>

definition ex_planned_agent :: "nat OrchestratorAgent" where
  "ex_planned_agent =
     ex_agent\<lparr>plan := Some ((TestbenchPlan_init ''alu_tb'' ''alu_core'' [])
                                \<lparr>coverage_target := Finite 80\<rparr>)\<rparr>"

definition ex_report_low :: AgentMessage where
  "ex_report_low = \<lparr>msg_id = ''c1'', sender = ''scoreboard_agent'', recipient = ''orchestrator'',
     timestamp = 5, priority = NORMAL, correlation_id = None, metadata = [],
     body = CoverageReport (Finite 73.5)
       [(''op_add'', Finite 100), (''op_sub'', Finite 80), (''overflow'', Finite 0)]
       [''overflow path''] []\<rparr>"

definition ex_report_high :: AgentMessage where
  "ex_report_high =
     ex_report_low\<lparr>body := CoverageReport (Finite 85) [(''op_sub'', Finite 80)] [] []\<rparr>"

definition ex_unknown_response :: AgentMessage where
  "ex_unknown_response = ex_response\<lparr>AgentMessage.correlation_id := Some ''nope''\<rparr>"

definition ex_uncorrelated_response :: AgentMessage where
  "ex_uncorrelated_response = ex_response\<lparr>AgentMessage.correlation_id := None\<rparr>"

definition ex_dut :: DUTSpec where
  "ex_dut = \<lparr>DUTSpec.name = ''alu'', module_name = ''alu_core'', ports = [], parameters = [],
     protocols = [], description = [], clock_name = ''clk'', reset_name = ''rst_n'',
     reset_active_low = True\<rparr>"

section \<open>Dialogue manager: properties\<close>

lemmas dialogue_defs =
  start_dialogue_def record_response_def record_feedback_def find_dialogue_def
  get_dialogue_def DialogueManager_init_def

lemmas ex_message_defs = ex_request_def ex_response_def ex_rejection_def ex_approval_def

text \<open>
  C1. With \<open>max_revisions = 2\<close>: \<open>start_dialogue\<close> stores an entry in state \<open>IN_PROGRESS\<close>
  with \<open>revision_count = 0\<close>; \<open>record_response\<close> of a response correlated to the request
  moves it to \<open>AWAITING_REVIEW\<close>; a first rejecting \<open>record_feedback\<close> moves it to
  \<open>REVISION_REQUESTED\<close> with \<open>revision_count = 1\<close>; a second one moves it to \<open>FAILED\<close> with
  \<open>revision_count = 2\<close>. Each call returns the entry it stored. The request's id is one
  that \<open>uuid4\<close> generates, hence not the empty string, which \<open>record_response\<close> and
  \<open>record_feedback\<close> take for a missing correlation id.
\<close>

theorem dialogue_revision_scenario:
  assumes "msg_id req \<noteq> []"
    and "AgentMessage.correlation_id resp = Some (msg_id req)"
    and "AgentMessage.correlation_id fb1 = Some (msg_id req)" and "\<not> approved (body fb1)"
    and "AgentMessage.correlation_id fb2 = Some (msg_id req)" and "\<not> approved (body fb2)"
  shows "let (e0, m0) = start_dialogue (DialogueManager_init 2) req;
             (r1, m1) = record_response m0 resp;
             (r2, m2) = record_feedback m1 fb1;
             (r3, m3) = record_feedback m2 fb2
         in get_dialogue m0 (msg_id req) = Some e0
          \<and> state e0 = IN_PROGRESS \<and> revision_count e0 = 0
          \<and> r1 \<noteq> None \<and> get_dialogue m1 (msg_id req) = r1
          \<and> map_option state r1 = Some AWAITING_REVIEW
          \<and> map_option revision_count r1 = Some 0
          \<and> r2 \<noteq> None \<and> get_dialogue m2 (msg_id req) = r2
          \<and> map_option state r2 = Some REVISION_REQUESTED
          \<and> map_option revision_count r2 = Some 1
          \<and> r3 \<noteq> None \<and> get_dialogue m3 (msg_id req) = r3
          \<and> map_option state r3 = Some FAILED
          \<and> map_option revision_count r3 = Some 2"
  using assms by (simp add: dialogue_defs Let_def)

theorem dialogue_revision_scenario_witness:
  "msg_id ex_request \<noteq> []
   \<and> AgentMessage.correlation_id ex_response = Some (msg_id ex_request)
   \<and> AgentMessage.correlation_id ex_rejection = Some (msg_id ex_request)
   \<and> \<not> approved (body ex_rejection)
   \<and> (let (e0, m0) = start_dialogue (DialogueManager_init 2) ex_request;
           (r1, m1) = record_response m0 ex_response;
           (r2, m2) = record_feedback m1 ex_rejection;
           (r3, m3) = record_feedback m2 ex_rejection
       in get_dialogue m0 (msg_id ex_request) = Some e0
          \<and> state e0 = IN_PROGRESS \<and> revision_count e0 = 0
          \<and> r1 \<noteq> None \<and> get_dialogue m1 (msg_id ex_request) = r1
          \<and> map_option state r1 = Some AWAITING_REVIEW
          \<and> map_option revision_count r1 = Some 0
          \<and> r2 \<noteq> None \<and> get_dialogue m2 (msg_id ex_request) = r2
          \<and> map_option state r2 = Some REVISION_REQUESTED
          \<and> map_option revision_count r2 = Some 1
          \<and> r3 \<noteq> None \<and> get_dialogue m3 (msg_id ex_request) = r3
          \<and> map_option state r3 = Some FAILED
          \<and> map_option revision_count r3 = Some 2)"
proof -
  have h: "msg_id ex_request \<noteq> []"
    "AgentMessage.correlation_id ex_response = Some (msg_id ex_request)"
    "AgentMessage.correlation_id ex_rejection = Some (msg_id ex_request)"
    "\<not> approved (body ex_rejection)"
    by (simp_all add: ex_message_defs)
  from dialogue_revision_scenario [OF h(1) h(2) h(3) h(4) h(3) h(4)] h show ?thesis
    by blast
qed

text \<open>
  C2, as stated, fails: neither method looks at the state of the entry it finds. On the
  manager of the scenario above, whose entry is \<open>FAILED\<close> with \<open>revision_count = 2\<close>, a
  third rejection raises \<open>revision_count\<close> to 3, and a response moves the entry back to
  \<open>AWAITING_REVIEW\<close>.
\<close>

theorem terminal_entry_mutated_counterexample:
  "map_option state (get_dialogue ex_failed_mgr ''r1'') = Some FAILED
   \<and> map_option revision_count (get_dialogue ex_failed_mgr ''r1'') = Some 2
   \<and> map_option revision_count
        (get_dialogue (snd (record_feedback ex_failed_mgr ex_rejection)) ''r1'') = Some 3
   \<and> map_option state
        (get_dialogue (snd (record_response ex_failed_mgr ex_response)) ''r1'')
       = Some AWAITING_REVIEW"
  by (simp add: ex_failed_mgr_def ex_message_defs dialogue_defs Let_def)

text \<open>
  C2, amended. An entry in state \<open>APPROVED\<close> or \<open>FAILED\<close> takes the same transitions as
  any other entry: \<open>record_response\<close> for its id sets the state to \<open>AWAITING_REVIEW\<close> and
  keeps \<open>revision_count\<close>; an approving \<open>record_feedback\<close> sets the state to \<open>APPROVED\<close>
  and keeps \<open>revision_count\<close>; a rejecting \<open>record_feedback\<close> adds one to \<open>revision_count\<close>
  and sets the state to \<open>FAILED\<close> when the new count has reached \<open>max_revisions\<close>, to
  \<open>REVISION_REQUESTED\<close> otherwise. So an entry that is \<open>FAILED\<close> with its count at or above
  \<open>max_revisions\<close> stays \<open>FAILED\<close> under a further rejection, with its count one higher.
\<close>

theorem terminal_entry_transitions:
  assumes "cid \<noteq> []" and "dialogues mgr cid = Some e"
    and "state e = APPROVED \<or> state e = FAILED"
    and "AgentMessage.correlation_id resp = Some cid"
    and "AgentMessage.correlation_id ok = Some cid" and "approved (body ok)"
    and "AgentMessage.correlation_id no = Some cid" and "\<not> approved (body no)"
  shows "map_option state (get_dialogue (snd (record_response mgr resp)) cid)
           = Some AWAITING_REVIEW
       \<and> map_option revision_count (get_dialogue (snd (record_response mgr resp)) cid)
           = Some (revision_count e)
       \<and> map_option state (get_dialogue (snd (record_feedback mgr ok)) cid) = Some APPROVED
       \<and> map_option revision_count (get_dialogue (snd (record_feedback mgr ok)) cid)
           = Some (revision_count e)
       \<and> map_option revision_count (get_dialogue (snd (record_feedback mgr no)) cid)
           = Some (revision_count e + 1)
       \<and> map_option state (get_dialogue (snd (record_feedback mgr no)) cid)
           = Some (if revision_count e + 1 \<ge> DialogueEntry.max_revisions e
                   then FAILED else REVISION_REQUESTED)"
  using assms by (simp add: dialogue_defs Let_def)

theorem terminal_entry_transitions_witness:
  "\<exists>e. ''r1'' \<noteq> [] \<and> dialogues ex_failed_mgr ''r1'' = Some e
     \<and> (state e = APPROVED \<or> state e = FAILED)
     \<and> revision_count e = 2 \<and> DialogueEntry.max_revisions e = 2
     \<and> AgentMessage.correlation_id ex_response = Some ''r1''
     \<and> AgentMessage.correlation_id ex_approval = Some ''r1'' \<and> approved (body ex_approval)
     \<and> AgentMessage.correlation_id ex_rejection = Some ''r1'' \<and> \<not> approved (body ex_rejection)
     \<and> map_option state (get_dialogue (snd (record_response ex_failed_mgr ex_response)) ''r1'')
           = Some AWAITING_REVIEW
     \<and> map_option revision_count
           (get_dialogue (snd (record_response ex_failed_mgr ex_response)) ''r1'') = Some 2
     \<and> map_option state (get_dialogue (snd (record_feedback ex_failed_mgr ex_approval)) ''r1'')
           = Some APPROVED
     \<and> map_option revision_count
           (get_dialogue (snd (record_feedback ex_failed_mgr ex_approval)) ''r1'') = Some 2
     \<and> map_option revision_count
           (get_dialogue (snd (record_feedback ex_failed_mgr ex_rejection)) ''r1'') = Some 3
     \<and> map_option state (get_dialogue (snd (record_feedback ex_failed_mgr ex_rejection)) ''r1'')
           = Some FAILED"
proof -
  obtain e where e: "dialogues ex_failed_mgr ''r1'' = Some e" "state e = FAILED"
    "revision_count e = 2" "DialogueEntry.max_revisions e = 2"
    by (simp add: ex_failed_mgr_def ex_message_defs dialogue_defs Let_def)
  have h: "''r1'' \<noteq> []" "state e = APPROVED \<or> state e = FAILED"
    "AgentMessage.correlation_id ex_response = Some ''r1''"
    "AgentMessage.correlation_id ex_approval = Some ''r1''" "approved (body ex_approval)"
    "AgentMessage.correlation_id ex_rejection = Some ''r1''" "\<not> approved (body ex_rejection)"
    using e by (simp_all add: ex_message_defs)
  from terminal_entry_transitions [OF h(1) e(1) h(2) h(3) h(4) h(5) h(6) h(7)] e h
  show ?thesis by simp
qed

text \<open>
  C3, as stated, fails: \<open>start_dialogue\<close> does not look the id up before it assigns
  \<open>self._dialogues[request.id]\<close>. On the manager above, whose entry for \<open>r1\<close> is \<open>FAILED\<close>
  with two revisions, a response and a feedback, starting a dialogue with the same
  request again returns a new entry and stores it in place of the old one.
\<close>

theorem start_dialogue_existing_counterexample:
  "map_option state (get_dialogue ex_failed_mgr (msg_id ex_request)) = Some FAILED
   \<and> map_option revision_count (get_dialogue ex_failed_mgr (msg_id ex_request)) = Some 2
   \<and> map_option response (get_dialogue ex_failed_mgr (msg_id ex_request))
       = Some (Some ex_response)
   \<and> state (fst (start_dialogue ex_failed_mgr ex_request)) = IN_PROGRESS
   \<and> map_option state
        (get_dialogue (snd (start_dialogue ex_failed_mgr ex_request)) (msg_id ex_request))
       = Some IN_PROGRESS
   \<and> map_option revision_count
        (get_dialogue (snd (start_dialogue ex_failed_mgr ex_request)) (msg_id ex_request))
       = Some 0
   \<and> map_option response
        (get_dialogue (snd (start_dialogue ex_failed_mgr ex_request)) (msg_id ex_request))
       = Some None"
  by (simp add: ex_failed_mgr_def ex_message_defs dialogue_defs Let_def)

text \<open>
  C3, amended. \<open>start_dialogue\<close> with a request whose id already keys a tracked dialogue
  replaces that entry: it returns, and stores under the id, a new entry in state
  \<open>IN_PROGRESS\<close> with \<open>revision_count = 0\<close>, the new request, no response and no
  feedback, and the manager's \<open>max_revisions\<close>; the entries under all other ids are left
  as they were.
\<close>

theorem start_dialogue_replaces_existing:
  assumes "dialogues mgr (msg_id req) = Some old"
  shows "let (e, mgr') = start_dialogue mgr req
         in get_dialogue mgr' (msg_id req) = Some e
          \<and> state e = IN_PROGRESS \<and> revision_count e = 0
          \<and> request e = Some req \<and> response e = None \<and> feedback e = None
          \<and> DialogueEntry.correlation_id e = msg_id req
          \<and> requester e = sender req \<and> responder e = recipient req
          \<and> DialogueEntry.max_revisions e = DialogueManager.max_revisions mgr
          \<and> DialogueManager.max_revisions mgr' = DialogueManager.max_revisions mgr
          \<and> (\<forall>cid. cid \<noteq> msg_id req \<longrightarrow> get_dialogue mgr' cid = get_dialogue mgr cid)"
  by (simp add: dialogue_defs Let_def)

theorem start_dialogue_replaces_existing_witness:
  "\<exists>old. dialogues ex_failed_mgr (msg_id ex_request) = Some old \<and> state old = FAILED
     \<and> (let (e, mgr') = start_dialogue ex_failed_mgr ex_request
        in get_dialogue mgr' (msg_id ex_request) = Some e
          \<and> state e = IN_PROGRESS \<and> revision_count e = 0
          \<and> request e = Some ex_request \<and> response e = None \<and> feedback e = None
          \<and> DialogueEntry.correlation_id e = msg_id ex_request
          \<and> requester e = sender ex_request \<and> responder e = recipient ex_request
          \<and> DialogueEntry.max_revisions e = DialogueManager.max_revisions ex_failed_mgr
          \<and> DialogueManager.max_revisions mgr' = DialogueManager.max_revisions ex_failed_mgr
          \<and> (''zz'' \<noteq> msg_id ex_request
               \<and> get_dialogue mgr' ''zz'' = get_dialogue ex_failed_mgr ''zz''))"
proof -
  obtain old where old: "dialogues ex_failed_mgr (msg_id ex_request) = Some old"
    "state old = FAILED"
    by (simp add: ex_failed_mgr_def ex_message_defs dialogue_defs Let_def)
  have ne: "''zz'' \<noteq> msg_id ex_request" by (simp add: ex_request_def)
  from start_dialogue_replaces_existing [OF old(1)] old ne show ?thesis
    by (auto simp: Let_def split_def)
qed

section \<open>Message bus: properties\<close>

lemma run_tasks_length: "length (fst (run_tasks run tasks b)) = length tasks"
  by (induction tasks arbitrary: b) (auto simp: case_prod_beta)

lemma run_tasks_appends:
  "appends_only run \<Longrightarrow> prefix (history b) (history (snd (run_tasks run tasks b)))"
proof (induction tasks arbitrary: b)
  case Nil
  then show ?case by simp
next
  case (Cons t tasks)
  obtain cb m where t: "t = (cb, m)" by (cases t)
  from Cons.prems have p1: "prefix (history b) (history (snd (run cb m b)))"
    unfolding appends_only_def by blast
  from Cons.IH [OF Cons.prems, of "snd (run cb m b)"]
  have p2: "prefix (history (snd (run cb m b)))
              (history (snd (run_tasks run tasks (snd (run cb m b)))))" .
  from p1 p2 have "prefix (history b) (history (snd (run_tasks run tasks (snd (run cb m b)))))"
    by (rule prefix_order.trans)
  then show ?case by (simp add: t case_prod_beta)
qed

lemma run_tasks_keeps:
  "keeps_history run \<Longrightarrow> history (snd (run_tasks run tasks b)) = history b"
proof (induction tasks arbitrary: b)
  case Nil
  then show ?case by simp
next
  case (Cons t tasks)
  obtain cb m where t: "t = (cb, m)" by (cases t)
  from Cons.prems have "history (snd (run cb m b)) = history b"
    unfolding keeps_history_def by blast
  with Cons.IH [OF Cons.prems, of "snd (run cb m b)"] show ?case
    by (simp add: t case_prod_beta)
qed

lemma keeps_history_appends_only: "keeps_history run \<Longrightarrow> appends_only run"
  by (simp add: keeps_history_def appends_only_def)

lemma publish_call_result: "call_result (publish run b channel message) = Inr ()"
  by (simp add: publish_def Let_def gather_def split: prod.splits)

lemma publish_invoked:
  "invoked (publish run b channel message)
     = channel_tasks b channel message @ type_tasks b message"
  by (simp add: publish_def Let_def channel_tasks_def type_tasks_def split: prod.splits)

lemma publish_bus_after:
  "bus_after (publish run b channel message)
     = snd (run_tasks run (invoked (publish run b channel message))
              (b\<lparr>history := history b @ [message]\<rparr>))"
  by (simp add: publish_def Let_def split: prod.splits)

lemma publish_history_appends:
  "appends_only run \<Longrightarrow>
     prefix (history b @ [message]) (history (bus_after (publish run b channel message)))"
  using run_tasks_appends [of run "b\<lparr>history := history b @ [message]\<rparr>"]
  by (simp add: publish_bus_after)

lemma publish_history_keeps:
  "keeps_history run \<Longrightarrow>
     history (bus_after (publish run b channel message)) = history b @ [message]"
  by (simp add: publish_bus_after run_tasks_keeps)

lemma type_tasks_mem:
  "(t, cbs) \<in> set (type_subscribers b) \<Longrightarrow> isinstance message t \<Longrightarrow> h \<in> set cbs
     \<Longrightarrow> (h, message) \<in> set (type_tasks b message)"
  by (force simp: type_tasks_def)

lemma type_tasks_mem_iff:
  "(h, m') \<in> set (type_tasks b message) \<longleftrightarrow>
     m' = message \<and> (\<exists>t cbs. (t, cbs) \<in> set (type_subscribers b) \<and> isinstance message t \<and> h \<in> set cbs)"
  by (force simp: type_tasks_def split: if_splits)

lemma ex_bus_simps:
  "subscribers ex_bus ''agent'' = [1, 2]" "subscribers ex_bus ''other'' = [3]"
  "type_subscribers ex_bus = [(CoverageReport_class, [4])]" "history ex_bus = []"
  by (simp_all add: ex_bus_def subscribe_def subscribe_type_def MessageBus_init_def)

lemma ex_failing_bus_simps:
  "subscribers ex_failing_bus ''agent'' = [1, 2]"
  "type_subscribers ex_failing_bus = [(CoverageReport_class, [4]), (PlanRequest_class, [6])]"
  "history ex_failing_bus = []"
  by (simp_all add: ex_failing_bus_def ex_bus_def subscribe_def subscribe_type_def MessageBus_init_def)

lemma ex_request_class:
  "isinstance ex_request PlanRequest_class" "\<not> isinstance ex_request CoverageReport_class"
  by (simp_all add: isinstance_def ex_request_def)

lemma keeps_history_ex_run: "keeps_history ex_run"
  by (simp add: keeps_history_def ex_run_def)

lemma ex_run_replying_history:
  "history (snd (ex_run_replying h m b))
     = (if h = 2 \<or> h = 5 then history b @ [ex_proposal] else history b)"
  by (simp add: ex_run_replying_def send_def publish_history_keeps [OF keeps_history_ex_run])

lemma appends_only_ex_run_replying: "appends_only ex_run_replying"
  by (simp add: appends_only_def ex_run_replying_history)

text \<open>
  With \<open>return_exceptions=False\<close>, an exception of one task would reach the caller of
  \<open>gather\<close>, and so the caller of \<open>publish\<close>.
\<close>

lemma gather_propagates_without_flag:
  "gather False [Returned, Raised e, Returned] = Inl e"
  by (simp add: gather_def)

text \<open>
  C5. When a subscriber that \<open>publish\<close> invokes raises, the call of \<open>publish\<close> still ends
  normally for its caller; the subscriber calls made are exactly one per registration on
  the channel, in order, followed by one per registration under a class the message is an
  instance of, and every one of them runs to an outcome: every other subscriber for the
  message is invoked with it; and the message is appended to the history before the first
  of them runs. So the message is at the end of the earlier history when the call returns,
  followed by what the subscribers published themselves, if no subscriber clears the
  history; and it is the only message added if no subscriber publishes.
\<close>

theorem publish_isolates_handler_failure:
  assumes "(h, message) \<in> set (invoked (publish run b channel message))"
    and "\<forall>b'. fst (run h message b') = Raised e"
  shows "call_result (publish run b channel message) = Inr ()
       \<and> bus_after (publish run b channel message)
           = snd (run_tasks run (invoked (publish run b channel message))
                    (b\<lparr>history := history b @ [message]\<rparr>))
       \<and> length (fst (run_tasks run (invoked (publish run b channel message))
                    (b\<lparr>history := history b @ [message]\<rparr>)))
           = length (invoked (publish run b channel message))
       \<and> (keeps_history run \<longrightarrow>
             history (bus_after (publish run b channel message)) = history b @ [message])
       \<and> (appends_only run \<longrightarrow>
             prefix (history b @ [message]) (history (bus_after (publish run b channel message))))
       \<and> invoked (publish run b channel message)
           = map (\<lambda>cb. (cb, message)) (subscribers b channel) @ type_tasks b message
       \<and> (\<forall>h' \<in> set (subscribers b channel).
             (h', message) \<in> set (invoked (publish run b channel message)))
       \<and> (\<forall>(t, cbs) \<in> set (type_subscribers b).
             isinstance message t \<longrightarrow>
               (\<forall>h' \<in> set cbs. (h', message) \<in> set (invoked (publish run b channel message))))"
proof -
  have inv: "invoked (publish run b channel message)
           = map (\<lambda>cb. (cb, message)) (subscribers b channel) @ type_tasks b message"
    by (simp add: publish_invoked channel_tasks_def)
  have mem: "\<forall>h' \<in> set (subscribers b channel).
             (h', message) \<in> set (invoked (publish run b channel message))"
    "\<forall>(t, cbs) \<in> set (type_subscribers b).
             isinstance message t \<longrightarrow>
               (\<forall>h' \<in> set cbs. (h', message) \<in> set (invoked (publish run b channel message)))"
    by (auto simp: inv type_tasks_mem)
  from inv mem show ?thesis
    using publish_call_result [where run=run and b=b and channel=channel and message=message]
      publish_bus_after [where run=run and b=b and channel=channel and message=message]
      run_tasks_length [where run=run and tasks="invoked (publish run b channel message)"]
      publish_history_keeps [where run=run and b=b and channel=channel and message=message]
      publish_history_appends [where run=run and b=b and channel=channel and message=message]
    by blast
qed

theorem publish_isolates_handler_failure_witness:
  "(1, ex_request) \<in> set (invoked (publish ex_run ex_failing_bus ''agent'' ex_request))
   \<and> fst (ex_run 1 ex_request ex_failing_bus) = Raised ''boom''
   \<and> call_result (publish ex_run ex_failing_bus ''agent'' ex_request) = Inr ()
   \<and> history (bus_after (publish ex_run ex_failing_bus ''agent'' ex_request)) = [ex_request]
   \<and> invoked (publish ex_run ex_failing_bus ''agent'' ex_request)
        = [(1, ex_request), (2, ex_request), (6, ex_request)]
   \<and> 2 \<in> set (subscribers ex_failing_bus ''agent'')
   \<and> (2, ex_request) \<in> set (invoked (publish ex_run ex_failing_bus ''agent'' ex_request))
   \<and> (PlanRequest_class, [6]) \<in> set (type_subscribers ex_failing_bus)
   \<and> isinstance ex_request PlanRequest_class
   \<and> (6, ex_request) \<in> set (invoked (publish ex_run ex_failing_bus ''agent'' ex_request))
   \<and> fst (ex_run_replying 1 ex_request ex_failing_bus) = Raised ''boom''
   \<and> call_result (publish ex_run_replying ex_failing_bus ''agent'' ex_request) = Inr ()
   \<and> invoked (publish ex_run_replying ex_failing_bus ''agent'' ex_request)
        = [(1, ex_request), (2, ex_request), (6, ex_request)]
   \<and> prefix [ex_request]
        (history (bus_after (publish ex_run_replying ex_failing_bus ''agent'' ex_request)))
   \<and> history (bus_after (publish ex_run_replying ex_failing_bus ''agent'' ex_request))
        = [ex_request, ex_proposal]"
proof -
  have inv: "invoked (publish run ex_failing_bus ''agent'' ex_request)
        = [(1, ex_request), (2, ex_request), (6, ex_request)]" for run
    by (simp add: publish_invoked channel_tasks_def type_tasks_def ex_failing_bus_simps ex_request_class)
  have h1: "(1, ex_request) \<in> set (invoked (publish run ex_failing_bus ''agent'' ex_request))" for run
    by (simp add: inv)
  have h2: "\<forall>b'. fst (ex_run 1 ex_request b') = Raised ''boom''"
    "\<forall>b'. fst (ex_run_replying 1 ex_request b') = Raised ''boom''"
    by (simp_all add: ex_run_def ex_run_replying_def)
  from publish_isolates_handler_failure [OF h1 [of ex_run] h2(1)] keeps_history_ex_run
  have c: "call_result (publish ex_run ex_failing_bus ''agent'' ex_request) = Inr ()"
    and hist: "history (bus_after (publish ex_run ex_failing_bus ''agent'' ex_request))
        = history ex_failing_bus @ [ex_request]"
    by blast+
  from publish_isolates_handler_failure [OF h1 [of ex_run_replying] h2(2)] appends_only_ex_run_replying
  have c': "call_result (publish ex_run_replying ex_failing_bus ''agent'' ex_request) = Inr ()"
    and hist': "prefix (history ex_failing_bus @ [ex_request])
        (history (bus_after (publish ex_run_replying ex_failing_bus ''agent'' ex_request)))"
    by blast+
  have "bus_after (publish ex_run_replying ex_failing_bus ''agent'' ex_request)
        = snd (run_tasks ex_run_replying [(1, ex_request), (2, ex_request), (6, ex_request)]
                 (ex_failing_bus\<lparr>history := [ex_request]\<rparr>))"
    using publish_bus_after [of ex_run_replying ex_failing_bus "''agent''" ex_request]
    by (simp add: inv ex_failing_bus_simps)
  then have full: "history (bus_after (publish ex_run_replying ex_failing_bus ''agent'' ex_request))
        = [ex_request, ex_proposal]"
    by (simp add: case_prod_beta ex_run_replying_history)
  have m: "2 \<in> set (subscribers ex_failing_bus ''agent'')"
    "(2, ex_request) \<in> set (invoked (publish ex_run ex_failing_bus ''agent'' ex_request))"
    "(PlanRequest_class, [6]) \<in> set (type_subscribers ex_failing_bus)"
    "(6, ex_request) \<in> set (invoked (publish ex_run ex_failing_bus ''agent'' ex_request))"
    by (simp_all add: inv ex_failing_bus_simps)
  from h1 h2 c hist c' hist' full inv m ex_request_class(1) show ?thesis
    by (simp add: ex_failing_bus_simps)
qed

text \<open>
  C8, as stated, fails: \<open>publish\<close> also invokes the type subscribers. Subscriber 7 is
  registered on the channel \<open>other\<close> and for the class \<open>PlanRequest\<close>; a request sent to
  \<open>agent\<close> reaches it, although it is not subscribed to the recipient's channel and is a
  subscriber of another channel.
\<close>

theorem send_reaches_type_subscriber_counterexample:
  "7 \<notin> set (subscribers ex_typed_bus (recipient ex_request))
   \<and> 7 \<in> set (subscribers ex_typed_bus ''other'')
   \<and> ''other'' \<noteq> recipient ex_request
   \<and> invoked (send ex_run ex_typed_bus ex_request) = [(7, ex_request)]"
  by (simp add: send_def publish_invoked channel_tasks_def type_tasks_def ex_typed_bus_def
      subscribe_def subscribe_type_def MessageBus_init_def ex_request_class)
     (simp add: ex_request_def)

text \<open>
  C8, amended. \<open>send(m)\<close> is \<open>publish(m.recipient, m)\<close>. It delivers \<open>m\<close> to the subscribers
  of the channel \<open>m.recipient\<close> and to the type subscribers registered under a class \<open>m\<close>
  is an instance of, and to no one else: a subscriber that is registered only on other
  channels, and under no such class, receives nothing from that send.
\<close>

theorem send_routes_to_recipient_channel:
  "send run b m = publish run b (recipient m) m
   \<and> invoked (send run b m)
       = map (\<lambda>cb. (cb, m)) (subscribers b (recipient m)) @ type_tasks b m
   \<and> (\<forall>h m'. h \<notin> set (subscribers b (recipient m))
         \<longrightarrow> (\<forall>(t, cbs) \<in> set (type_subscribers b). isinstance m t \<longrightarrow> h \<notin> set cbs)
         \<longrightarrow> (h, m') \<notin> set (invoked (send run b m)))"
  by (auto simp: send_def publish_invoked channel_tasks_def type_tasks_mem_iff)

theorem send_routes_to_recipient_channel_witness:
  "recipient ex_request = ''agent''
   \<and> 3 \<in> set (subscribers ex_bus ''other'')
   \<and> 3 \<notin> set (subscribers ex_bus (recipient ex_request))
   \<and> type_subscribers ex_bus = [(CoverageReport_class, [4])]
   \<and> \<not> isinstance ex_request CoverageReport_class
   \<and> (3, ex_request) \<notin> set (invoked (send ex_run ex_bus ex_request))
   \<and> send ex_run ex_bus ex_request = publish ex_run ex_bus ''agent'' ex_request
   \<and> invoked (send ex_run ex_bus ex_request) = [(1, ex_request), (2, ex_request)]"
proof -
  have r: "recipient ex_request = ''agent''" by (simp add: ex_request_def)
  have h1: "3 \<notin> set (subscribers ex_bus (recipient ex_request))"
    by (simp add: r ex_bus_simps)
  have h2: "\<forall>(t, cbs) \<in> set (type_subscribers ex_bus). isinstance ex_request t \<longrightarrow> 3 \<notin> set cbs"
    by (simp add: ex_bus_simps)
  have tt: "type_tasks ex_bus ex_request = []"
    by (simp add: type_tasks_def ex_bus_simps ex_request_class)
  from send_routes_to_recipient_channel [of ex_run ex_bus ex_request]
  have eq: "send ex_run ex_bus ex_request = publish ex_run ex_bus (recipient ex_request) ex_request"
    and inv: "invoked (send ex_run ex_bus ex_request)
       = map (\<lambda>cb. (cb, ex_request)) (subscribers ex_bus (recipient ex_request))
         @ type_tasks ex_bus ex_request"
    and no: "\<forall>h m'. h \<notin> set (subscribers ex_bus (recipient ex_request))
         \<longrightarrow> (\<forall>(t, cbs) \<in> set (type_subscribers ex_bus). isinstance ex_request t \<longrightarrow> h \<notin> set cbs)
         \<longrightarrow> (h, m') \<notin> set (invoked (send ex_run ex_bus ex_request))"
    by blast+
  from no h1 h2 have n3: "(3, ex_request) \<notin> set (invoked (send ex_run ex_bus ex_request))"
    by blast
  have inv': "invoked (send ex_run ex_bus ex_request) = [(1, ex_request), (2, ex_request)]"
    unfolding inv tt r by (simp add: ex_bus_simps)
  have o: "3 \<in> set (subscribers ex_bus ''other'')" by (simp add: ex_bus_simps)
  from r o h1 n3 eq inv' ex_bus_simps(3) ex_request_class(2) show ?thesis
    unfolding r by blast
qed

lemma registration_keeps_history:
  "history (subscribe b c h) = history b"
  "history (subscribe_type b t h) = history b"
  "history (unsubscribe b c h) = history b"
  by (simp_all add: subscribe_def subscribe_type_def unsubscribe_def Let_def)

lemma apply_op_prefix:
  "appends_only run \<Longrightarrow> op \<noteq> ClearHistory \<Longrightarrow> prefix (history b) (history (apply_op run b op))"
proof (cases op)
  case (Publish c m)
  assume "appends_only run"
  from publish_history_appends [OF this, of b m c] show ?thesis
    by (simp add: Publish append_prefixD)
next
  case (Send m)
  assume "appends_only run"
  from publish_history_appends [OF this, of b m "recipient m"] show ?thesis
    by (simp add: Send send_def append_prefixD)
qed (simp_all add: registration_keeps_history)

lemma apply_ops_prefix:
  "appends_only run \<Longrightarrow> ClearHistory \<notin> set ops
     \<Longrightarrow> prefix (history b) (history (apply_ops run b ops))"
proof (induction ops arbitrary: b)
  case Nil
  then show ?case by simp
next
  case (Cons op ops)
  then have ne: "op \<noteq> ClearHistory" and rest: "ClearHistory \<notin> set ops" by auto
  from apply_op_prefix [OF Cons.prems(1) ne, of b]
  have "prefix (history b) (history (apply_op run b op))" .
  also have "prefix \<dots> (history (apply_ops run (apply_op run b op) ops))"
    using Cons.IH [OF Cons.prems(1) rest] .
  finally show ?case by simp
qed

lemma apply_op_one_or_none:
  "keeps_history run \<Longrightarrow> op \<noteq> ClearHistory \<Longrightarrow>
     history (apply_op run b op) = history b
     \<or> (\<exists>m. history (apply_op run b op) = history b @ [m])"
  by (cases op) (simp_all add: registration_keeps_history publish_history_keeps send_def)

lemma publish_ex_run: "bus_after (publish ex_run b c m) = b\<lparr>history := history b @ [m]\<rparr>"
proof -
  have "snd (run_tasks ex_run tasks b') = b'" for tasks b'
    by (induction tasks arbitrary: b') (auto simp: case_prod_beta ex_run_def)
  then show ?thesis by (simp add: publish_bus_after)
qed

lemma ex_published_bus_simps:
  "history ex_published_bus = [ex_request]"
  "subscribers ex_published_bus ''agent'' = [1, 2]"
  "subscribers ex_published_bus ''orchestrator'' = []"
  "type_subscribers ex_published_bus = [(CoverageReport_class, [4])]"
  by (simp_all add: ex_published_bus_def publish_ex_run ex_bus_def subscribe_def
      subscribe_type_def MessageBus_init_def)

text \<open>
  C9, as stated, fails: \<open>clear_history\<close> is an operation of the bus, and it removes every
  message. After one publish the history holds the request; after \<open>clear_history\<close> it is
  empty, and the earlier history is no prefix of it.
\<close>

theorem clear_history_truncates_counterexample:
  "history ex_published_bus = [ex_request]
   \<and> history (apply_op ex_run ex_published_bus ClearHistory) = []
   \<and> \<not> prefix (history ex_published_bus) (history (apply_op ex_run ex_published_bus ClearHistory))"
  by (simp add: ex_published_bus_simps clear_history_def)

text \<open>A publish whose subscriber answers adds two messages to the history.\<close>

lemma publish_with_reply_appends_two:
  "history (apply_op ex_run_replying ex_published_bus (Publish ''agent'' ex_request))
     = [ex_request, ex_request, ex_proposal]"
proof -
  have inv: "invoked (publish ex_run_replying ex_published_bus ''agent'' ex_request)
      = [(1, ex_request), (2, ex_request)]"
    by (simp add: publish_invoked channel_tasks_def type_tasks_def ex_published_bus_simps
        ex_request_class)
  have "bus_after (publish ex_run_replying ex_published_bus ''agent'' ex_request)
        = snd (run_tasks ex_run_replying [(1, ex_request), (2, ex_request)]
                 (ex_published_bus\<lparr>history := [ex_request, ex_request]\<rparr>))"
    using publish_bus_after [of ex_run_replying ex_published_bus "''agent''" ex_request]
    by (simp add: inv ex_published_bus_simps)
  then show ?thesis
    by (simp add: case_prod_beta ex_run_replying_history)
qed

text \<open>
  C9, amended. \<open>subscribe\<close>, \<open>subscribe_type\<close>, \<open>unsubscribe\<close>, \<open>history\<close> and
  \<open>get_history_for\<close> leave the history unchanged. \<open>publish\<close> and \<open>send\<close> append the message
  they are given at the end of the history, before any subscriber runs; when the call
  returns, that message is followed by whatever the invoked subscribers published
  themselves in the meantime. So, as long as no subscriber body clears the history, every
  operation other than \<open>clear_history\<close> keeps the earlier history as a prefix of the later
  one, and so does every sequence of such operations; and when no subscriber body
  publishes, each such operation leaves the history unchanged or appends exactly one
  message. \<open>clear_history\<close> empties the history.
\<close>

theorem history_append_only_without_clear:
  "history (apply_op run b (Subscribe c h)) = history b
   \<and> history (apply_op run b (SubscribeType t h)) = history b
   \<and> history (apply_op run b (Unsubscribe c h)) = history b
   \<and> history (apply_op run b History) = history b
   \<and> history (apply_op run b (GetHistoryFor a)) = history b
   \<and> (keeps_history run \<longrightarrow>
        history (apply_op run b (Publish c m)) = history b @ [m]
        \<and> history (apply_op run b (Send m)) = history b @ [m]
        \<and> (op \<noteq> ClearHistory \<longrightarrow>
             history (apply_op run b op) = history b
             \<or> (\<exists>m'. history (apply_op run b op) = history b @ [m'])))
   \<and> (appends_only run \<longrightarrow>
        prefix (history b @ [m]) (history (apply_op run b (Publish c m)))
        \<and> prefix (history b @ [m]) (history (apply_op run b (Send m)))
        \<and> (op \<noteq> ClearHistory \<longrightarrow> prefix (history b) (history (apply_op run b op)))
        \<and> (ClearHistory \<notin> set ops \<longrightarrow> prefix (history b) (history (apply_ops run b ops))))
   \<and> history (apply_op run b ClearHistory) = []"
  by (simp add: registration_keeps_history publish_history_keeps publish_history_appends
      send_def apply_op_prefix apply_ops_prefix apply_op_one_or_none clear_history_def)

theorem history_append_only_without_clear_witness:
  "keeps_history ex_run
   \<and> history (apply_op ex_run ex_published_bus (Unsubscribe ''agent'' 1)) = [ex_request]
   \<and> history (apply_op ex_run ex_published_bus (Publish ''other'' ex_response))
        = [ex_request, ex_response]
   \<and> appends_only ex_run_replying
   \<and> Publish ''agent'' ex_request \<noteq> (ClearHistory :: nat bus_op)
   \<and> prefix [ex_request, ex_request]
        (history (apply_op ex_run_replying ex_published_bus (Publish ''agent'' ex_request)))
   \<and> history (apply_op ex_run_replying ex_published_bus (Publish ''agent'' ex_request))
        = [ex_request, ex_request, ex_proposal]
   \<and> ClearHistory \<notin> set ex_ops
   \<and> prefix (history ex_published_bus)
        (history (apply_ops ex_run_replying ex_published_bus ex_ops))
   \<and> history (apply_op ex_run_replying ex_published_bus ClearHistory) = []"
proof -
  have h0: "history ex_published_bus = [ex_request]" by (simp add: ex_published_bus_simps)
  have h1: "Publish ''agent'' ex_request \<noteq> (ClearHistory :: nat bus_op)" by simp
  have h2: "ClearHistory \<notin> set ex_ops" by (simp add: ex_ops_def)
  from history_append_only_without_clear
         [of ex_run ex_published_bus "''agent''" 1 PlanRequest_class "''agent''"
             ex_response "Publish ''agent'' ex_request" ex_ops]
       keeps_history_ex_run
  have k: "history (apply_op ex_run ex_published_bus (Unsubscribe ''agent'' 1))
             = history ex_published_bus"
    "history (apply_op ex_run ex_published_bus (Publish ''agent'' ex_response))
             = history ex_published_bus @ [ex_response]"
    by blast+
  from history_append_only_without_clear
         [of ex_run_replying ex_published_bus "''agent''" 1 PlanRequest_class "''agent''"
             ex_request "Publish ''agent'' ex_request" ex_ops]
       appends_only_ex_run_replying h1 h2
  have a: "prefix (history ex_published_bus @ [ex_request])
             (history (apply_op ex_run_replying ex_published_bus (Publish ''agent'' ex_request)))"
    "prefix (history ex_published_bus)
        (history (apply_ops ex_run_replying ex_published_bus ex_ops))"
    "history (apply_op ex_run_replying ex_published_bus ClearHistory) = []"
    by blast+
  have o: "history (apply_op ex_run ex_published_bus (Publish ''other'' ex_response))
        = [ex_request, ex_response]"
    by (simp add: publish_ex_run h0)
  from k a o h0 h1 h2 keeps_history_ex_run appends_only_ex_run_replying
    publish_with_reply_appends_two
  show ?thesis by simp
qed

lemma count_list_tasks: "count_list (map (\<lambda>cb. (cb, m)) xs) (h, m) = count_list xs h"
  by (induction xs) simp_all

lemma resubscribed_counts:
  "count_list (subscribers (subscribe (subscribe b c h) c h) c) h
     = count_list (subscribers b c) h + 2
   \<and> count_list (subscribers (unsubscribe (subscribe (subscribe b c h) c h) c h) c) h
     = count_list (subscribers b c) h + 1
   \<and> count_list (invoked (publish run (unsubscribe (subscribe (subscribe b c h) c h) c h) c m)) (h, m)
     = count_list (subscribers b c) h + 1 + count_list (type_tasks b m) (h, m)"
  by (simp add: subscribe_def unsubscribe_def Let_def count_list_remove1 publish_invoked
      channel_tasks_def count_list_tasks type_tasks_def)

text \<open>
  C10. If \<open>h\<close> is subscribed to \<open>c\<close> twice (and was not before, nor is it a type
  subscriber for the message), one \<open>unsubscribe(c, h)\<close> removes one registration only: \<open>h\<close>
  is still registered once, and a publish on \<open>c\<close> invokes it exactly once.
\<close>

theorem duplicate_subscription_unsubscribed_once:
  assumes "h \<notin> set (subscribers b c)" and "(h, m) \<notin> set (type_tasks b m)"
  shows "count_list (subscribers (subscribe (subscribe b c h) c h) c) h = 2
       \<and> subscribers (unsubscribe (subscribe (subscribe b c h) c h) c h) c = subscribers b c @ [h]
       \<and> count_list (subscribers (unsubscribe (subscribe (subscribe b c h) c h) c h) c) h = 1
       \<and> count_list
           (invoked (publish run (unsubscribe (subscribe (subscribe b c h) c h) c h) c m)) (h, m)
          = 1"
proof -
  have z: "count_list (subscribers b c) h = 0" "count_list (type_tasks b m) (h, m) = 0"
    using assms by (simp_all add: count_list_0_iff)
  have r: "remove1 h (subscribers b c @ [h, h]) = subscribers b c @ [h]"
    using assms(1) by (simp add: remove1_append)
  have s: "subscribers (unsubscribe (subscribe (subscribe b c h) c h) c h) c = subscribers b c @ [h]"
    using r by (simp add: subscribe_def unsubscribe_def Let_def)
  from resubscribed_counts [of b c h run m] z s show ?thesis by simp
qed

theorem duplicate_subscription_unsubscribed_once_witness:
  "3 \<notin> set (subscribers ex_bus ''agent'')
   \<and> (3, ex_request) \<notin> set (type_tasks ex_bus ex_request)
   \<and> count_list (subscribers (subscribe (subscribe ex_bus ''agent'' 3) ''agent'' 3) ''agent'') 3 = 2
   \<and> subscribers (unsubscribe (subscribe (subscribe ex_bus ''agent'' 3) ''agent'' 3) ''agent'' 3)
        ''agent'' = [1, 2, 3]
   \<and> count_list
        (invoked (publish ex_run
           (unsubscribe (subscribe (subscribe ex_bus ''agent'' 3) ''agent'' 3) ''agent'' 3)
           ''agent'' ex_request)) (3, ex_request) = 1"
proof -
  have h1: "3 \<notin> set (subscribers ex_bus ''agent'')" by (simp add: ex_bus_simps)
  have h2: "(3, ex_request) \<notin> set (type_tasks ex_bus ex_request)"
    by (simp add: type_tasks_def ex_bus_simps ex_request_class)
  from duplicate_subscription_unsubscribed_once [OF h1 h2, of ex_run] h1 h2 show ?thesis
    by (simp add: ex_bus_simps)
qed

section \<open>Orchestrator: properties\<close>

lemma float_lt_not_ge: "float_lt a b \<Longrightarrow> \<not> float_ge a b"
  by (cases a; cases b) simp_all

lemma send_message_result:
  "send_message env agent m
     = (Inr (), agent\<lparr>bus := bus_after (send (run_handler env) (bus agent) m)\<rparr>)"
  by (simp add: send_message_def Let_def send_def publish_call_result)

text \<open>
  C4. On a report whose \<open>overall_coverage\<close> is strictly below the plan's
  \<open>coverage_target\<close>, all that \<open>_handle_coverage_report\<close> does is one \<open>send_message\<close>, of a
  \<open>CoverageDirective\<close> addressed to \<open>sequence_agent\<close> whose \<open>target_bins\<close> are the keys of
  \<open>coverage_bins\<close> with a value strictly below 100.0, in the order of the dict: it
  publishes exactly that one message. The directive goes to the subscribers of
  \<open>sequence_agent\<close>, and what they publish in answer follows it in the history. On a report
  that meets or exceeds the plan's target the handler publishes nothing: the agent, its
  bus included, is left as it was.
\<close>

theorem coverage_report_directive:
  assumes "plan agent = Some p"
    and "float_lt (overall_coverage (body lo)) (coverage_target p)"
    and "distinct (map fst (coverage_bins (body lo)))"
    and "float_ge (overall_coverage (body hi)) (coverage_target p)"
  shows "(\<exists>d. handle_coverage_report env agent stamp lo = send_message env agent d
            \<and> fst (handle_coverage_report env agent stamp lo) = Inr ()
            \<and> is_CoverageDirective (body d)
            \<and> sender d = OrchestratorAgent.name agent \<and> recipient d = ''sequence_agent''
            \<and> target_bins (body d)
                = map fst (filter (\<lambda>(k, v). float_lt v (Finite 100)) (coverage_bins (body lo)))
            \<and> set (target_bins (body d))
                = {k. \<exists>v. map_of (coverage_bins (body lo)) k = Some v \<and> float_lt v (Finite 100)}
            \<and> target_scenarios (body d) = uncovered_scenarios (body lo)
            \<and> invoked (send (run_handler env) (bus agent) d)
                = map (\<lambda>cb. (cb, d)) (subscribers (bus agent) ''sequence_agent'')
                  @ type_tasks (bus agent) d
            \<and> (keeps_history (run_handler env) \<longrightarrow>
                  history (bus (snd (handle_coverage_report env agent stamp lo)))
                    = history (bus agent) @ [d])
            \<and> (appends_only (run_handler env) \<longrightarrow>
                  prefix (history (bus agent) @ [d])
                    (history (bus (snd (handle_coverage_report env agent stamp lo))))))
       \<and> handle_coverage_report env agent stamp hi = (Inr (), agent)"
proof -
  from assms(2) have lo: "\<not> float_ge (overall_coverage (body lo)) (coverage_target p)"
    by (rule float_lt_not_ge)
  define ks where "ks = map fst (filter (\<lambda>(k, v). float_lt v (Finite 100)) (coverage_bins (body lo)))"
  define d where "d = \<lparr>msg_id = fst stamp, sender = OrchestratorAgent.name agent,
      recipient = ''sequence_agent'', timestamp = snd stamp, priority = NORMAL,
      correlation_id = None, metadata = [],
      body = CoverageDirective ks (uncovered_scenarios (body lo)) [] []\<rparr>"
  have keys: "set ks
      = {k. \<exists>v. map_of (coverage_bins (body lo)) k = Some v \<and> float_lt v (Finite 100)}"
    using assms(3) by (auto simp: ks_def image_iff)
  have run: "handle_coverage_report env agent stamp lo = send_message env agent d"
    using lo assms(1) by (simp add: handle_coverage_report_def Let_def d_def ks_def)
  have ok: "fst (handle_coverage_report env agent stamp lo) = Inr ()"
    by (simp add: run send_message_result)
  have fields: "is_CoverageDirective (body d)" "sender d = OrchestratorAgent.name agent"
    "recipient d = ''sequence_agent''" "target_bins (body d) = ks"
    "target_scenarios (body d) = uncovered_scenarios (body lo)"
    by (simp_all add: d_def)
  have inv: "invoked (send (run_handler env) (bus agent) d)
                = map (\<lambda>cb. (cb, d)) (subscribers (bus agent) ''sequence_agent'')
                  @ type_tasks (bus agent) d"
    by (simp add: send_def publish_invoked channel_tasks_def fields)
  have keeps: "keeps_history (run_handler env) \<longrightarrow>
                  history (bus (snd (handle_coverage_report env agent stamp lo)))
                    = history (bus agent) @ [d]"
    by (simp add: run send_message_result send_def publish_history_keeps)
  have apps: "appends_only (run_handler env) \<longrightarrow>
                  prefix (history (bus agent) @ [d])
                    (history (bus (snd (handle_coverage_report env agent stamp lo))))"
    by (simp add: run send_message_result send_def publish_history_appends)
  have hi: "handle_coverage_report env agent stamp hi = (Inr (), agent)"
    using assms(1,4) by (simp add: handle_coverage_report_def)
  from run ok fields keys inv keeps apps hi show ?thesis
    unfolding ks_def [symmetric] by blast
qed

lemma ex_planned_agent_simps:
  "plan ex_planned_agent
     = Some ((TestbenchPlan_init ''alu_tb'' ''alu_core'' [])\<lparr>coverage_target := Finite 80\<rparr>)"
  "history (bus ex_planned_agent) = []"
  "subscribers (bus ex_planned_agent) ''sequence_agent'' = [5]"
  "type_subscribers (bus ex_planned_agent) = []"
  "OrchestratorAgent.name ex_planned_agent = ''orchestrator''"
  by (simp_all add: ex_planned_agent_def ex_agent_def OrchestratorAgent_init_def subscribe_def
      MessageBus_init_def)

theorem coverage_report_directive_witness:
  "(\<exists>p. plan ex_planned_agent = Some p \<and> coverage_target p = Finite 80
      \<and> float_lt (overall_coverage (body ex_report_low)) (coverage_target p)
      \<and> float_ge (overall_coverage (body ex_report_high)) (coverage_target p)
      \<and> \<not> float_ge (overall_coverage (body ex_report_high)) (Finite 95))
   \<and> distinct (map fst (coverage_bins (body ex_report_low)))
   \<and> keeps_history (run_handler ex_env)
   \<and> (\<exists>d. handle_coverage_report ex_env ex_planned_agent (''d1'', 6) ex_report_low
            = send_message ex_env ex_planned_agent d
         \<and> is_CoverageDirective (body d)
         \<and> recipient d = ''sequence_agent''
         \<and> target_bins (body d) = [''op_sub'', ''overflow'']
         \<and> invoked (send (run_handler ex_env) (bus ex_planned_agent) d) = [(5, d)]
         \<and> history (bus (snd (handle_coverage_report ex_env ex_planned_agent (''d1'', 6)
                                 ex_report_low))) = [d])
   \<and> appends_only (run_handler ex_env_replying)
   \<and> (\<exists>d. handle_coverage_report ex_env_replying ex_planned_agent (''d1'', 6) ex_report_low
            = send_message ex_env_replying ex_planned_agent d
         \<and> target_bins (body d) = [''op_sub'', ''overflow'']
         \<and> prefix [d]
              (history (bus (snd (handle_coverage_report ex_env_replying ex_planned_agent
                                    (''d1'', 6) ex_report_low))))
         \<and> history (bus (snd (handle_coverage_report ex_env_replying ex_planned_agent
                                 (''d1'', 6) ex_report_low))) = [d, ex_proposal])
   \<and> handle_coverage_report ex_env ex_planned_agent (''d1'', 6) ex_report_high
        = (Inr (), ex_planned_agent)"
proof -
  define p where "p = (TestbenchPlan_init ''alu_tb'' ''alu_core'' [])\<lparr>coverage_target := Finite 80\<rparr>"
  have pl: "plan ex_planned_agent = Some p" by (simp add: p_def ex_planned_agent_simps)
  have t: "coverage_target p = Finite 80" by (simp add: p_def)
  have h: "float_lt (overall_coverage (body ex_report_low)) (coverage_target p)"
    "distinct (map fst (coverage_bins (body ex_report_low)))"
    "float_ge (overall_coverage (body ex_report_high)) (coverage_target p)"
    by (simp_all add: t ex_report_low_def ex_report_high_def)
  have n95: "\<not> float_ge (overall_coverage (body ex_report_high)) (Finite 95)"
    by (simp add: ex_report_low_def ex_report_high_def)
  have bins: "map fst (filter (\<lambda>(k, v). float_lt v (Finite 100)) (coverage_bins (body ex_report_low)))
      = [''op_sub'', ''overflow'']"
    by (simp add: ex_report_low_def)
  have k: "keeps_history (run_handler ex_env)"
    by (simp add: ex_env_def keeps_history_ex_run)
  have a: "appends_only (run_handler ex_env_replying)"
    by (simp add: ex_env_replying_def appends_only_ex_run_replying)
  from coverage_report_directive [OF pl h, of ex_env "(''d1'', 6)"] k
  obtain d where d: "handle_coverage_report ex_env ex_planned_agent (''d1'', 6) ex_report_low
            = send_message ex_env ex_planned_agent d"
      "is_CoverageDirective (body d)" "recipient d = ''sequence_agent''"
      "target_bins (body d) = [''op_sub'', ''overflow'']"
      "invoked (send (run_handler ex_env) (bus ex_planned_agent) d)
         = map (\<lambda>cb. (cb, d)) (subscribers (bus ex_planned_agent) ''sequence_agent'')
           @ type_tasks (bus ex_planned_agent) d"
      "history (bus (snd (handle_coverage_report ex_env ex_planned_agent (''d1'', 6)
                              ex_report_low))) = history (bus ex_planned_agent) @ [d]"
    and hi: "handle_coverage_report ex_env ex_planned_agent (''d1'', 6) ex_report_high
        = (Inr (), ex_planned_agent)"
    unfolding bins by blast
  have d': "invoked (send (run_handler ex_env) (bus ex_planned_agent) d) = [(5, d)]"
    "history (bus (snd (handle_coverage_report ex_env ex_planned_agent (''d1'', 6)
                              ex_report_low))) = [d]"
    using d(5,6) by (simp_all add: ex_planned_agent_simps type_tasks_def)
  from coverage_report_directive [OF pl h, of ex_env_replying "(''d1'', 6)"] a
  obtain e where e: "handle_coverage_report ex_env_replying ex_planned_agent (''d1'', 6) ex_report_low
            = send_message ex_env_replying ex_planned_agent e"
      "recipient e = ''sequence_agent''"
      "target_bins (body e) = [''op_sub'', ''overflow'']"
      "prefix (history (bus ex_planned_agent) @ [e])
         (history (bus (snd (handle_coverage_report ex_env_replying ex_planned_agent
                               (''d1'', 6) ex_report_low))))"
    unfolding bins by blast
  have rh: "run_handler ex_env_replying = ex_run_replying"
    by (simp add: ex_env_replying_def)
  have inv: "invoked (publish ex_run_replying (bus ex_planned_agent) ''sequence_agent'' e) = [(5, e)]"
    by (simp add: publish_invoked channel_tasks_def type_tasks_def ex_planned_agent_simps)
  have "bus_after (publish ex_run_replying (bus ex_planned_agent) ''sequence_agent'' e)
        = snd (run_tasks ex_run_replying [(5, e)] ((bus ex_planned_agent)\<lparr>history := [e]\<rparr>))"
    using publish_bus_after [of ex_run_replying "bus ex_planned_agent" "''sequence_agent''" e]
    by (simp add: inv ex_planned_agent_simps)
  then have "history (bus_after (publish ex_run_replying (bus ex_planned_agent) ''sequence_agent'' e))
        = [e, ex_proposal]"
    by (simp add: case_prod_beta ex_run_replying_history)
  then have e': "history (bus (snd (handle_coverage_report ex_env_replying ex_planned_agent
                                 (''d1'', 6) ex_report_low))) = [e, ex_proposal]"
    using rh by (simp add: e(1) send_message_result send_def e(2))
  from e(4) have e4: "prefix [e]
         (history (bus (snd (handle_coverage_report ex_env_replying ex_planned_agent
                               (''d1'', 6) ex_report_low))))"
    by (simp add: ex_planned_agent_simps)
  from pl t h n95 k a d(1-4) d' e(1,3) e4 e' hi show ?thesis
    by blast
qed

text \<open>
  C6. For a message whose \<open>correlation_id\<close> is \<open>None\<close> or keys no tracked dialogue,
  \<open>record_response\<close> and \<open>record_feedback\<close> return \<open>None\<close> and leave the manager as it was,
  and \<open>_handle_plan_response\<close> returns at once: the agent is unchanged, so nothing was
  added to the conversation with the generation service (no review) and nothing to the
  history of the bus (no feedback published), whatever the collaborators are.
\<close>

theorem routing_miss_dropped:
  assumes "AgentMessage.correlation_id msg = None
           \<or> (\<exists>cid. AgentMessage.correlation_id msg = Some cid \<and> dialogues (dialogue_mgr agent) cid = None)"
  shows "record_response (dialogue_mgr agent) msg = (None, dialogue_mgr agent)
       \<and> record_feedback (dialogue_mgr agent) msg = (None, dialogue_mgr agent)
       \<and> handle_plan_response env agent stamp msg = (Inr (), agent)"
  using assms
  by (auto simp: record_response_def record_feedback_def find_dialogue_def handle_plan_response_def)

theorem routing_miss_dropped_witness:
  "(\<exists>cid. AgentMessage.correlation_id ex_unknown_response = Some cid
        \<and> dialogues (dialogue_mgr ex_agent) cid = None)
   \<and> dialogues (dialogue_mgr ex_agent) ''r1'' \<noteq> None
   \<and> record_response (dialogue_mgr ex_agent) ex_unknown_response = (None, dialogue_mgr ex_agent)
   \<and> record_feedback (dialogue_mgr ex_agent) ex_unknown_response = (None, dialogue_mgr ex_agent)
   \<and> handle_plan_response ex_env ex_agent (''f1'', 7) ex_unknown_response = (Inr (), ex_agent)
   \<and> AgentMessage.correlation_id ex_uncorrelated_response = None
   \<and> handle_plan_response ex_env ex_agent (''f1'', 7) ex_uncorrelated_response = (Inr (), ex_agent)"
proof -
  have h1: "\<exists>cid. AgentMessage.correlation_id ex_unknown_response = Some cid
        \<and> dialogues (dialogue_mgr ex_agent) cid = None"
    by (simp add: ex_unknown_response_def ex_agent_def OrchestratorAgent_init_def
        start_dialogue_def Let_def DialogueManager_init_def ex_request_def)
  have h2: "AgentMessage.correlation_id ex_uncorrelated_response = None"
    by (simp add: ex_uncorrelated_response_def)
  have h3: "dialogues (dialogue_mgr ex_agent) ''r1'' \<noteq> None"
    by (simp add: ex_agent_def OrchestratorAgent_init_def
        start_dialogue_def Let_def DialogueManager_init_def ex_request_def)
  from routing_miss_dropped [OF disjI2, OF h1, of ex_env "(''f1'', 7)"]
    routing_miss_dropped [OF disjI1, OF h2, of ex_agent ex_env "(''f1'', 7)"] h1 h2 h3
  show ?thesis by blast
qed

text \<open>
  C7. When the generation service answers, and the answer does not parse as JSON or the
  parsed value does not validate as a plan, \<open>analyze_dut\<close> returns normally, with a plan
  (which it also stores) whose \<open>name\<close> is the DUT spec's name followed by \<open>_tb\<close> and whose
  \<open>dut_name\<close> is the spec's \<open>module_name\<close>.
\<close>

theorem analyze_dut_falls_back:
  assumes "fst (call_llm env agent (analyze_prompt env dut_spec)) = Inr llm_text"
    and "(\<exists>exc. extract_json env llm_text = Inl exc)
         \<or> (\<exists>plan_data exc. extract_json env llm_text = Inr plan_data
               \<and> validate_plan env plan_data = Inl exc)"
  shows "\<exists>p. fst (analyze_dut env agent dut_spec) = Inr p
           \<and> plan (snd (analyze_dut env agent dut_spec)) = Some p
           \<and> TestbenchPlan.name p = DUTSpec.name dut_spec @ ''_tb''
           \<and> dut_name p = module_name dut_spec"
  using assms
  by (cases "call_llm env agent (analyze_prompt env dut_spec)")
     (auto simp: analyze_dut_def Let_def fallback_plan_def TestbenchPlan_init_def
        TestbenchPlan_post_init_def)

theorem analyze_dut_falls_back_witness:
  "fst (call_llm ex_env ex_agent (analyze_prompt ex_env ex_dut)) = Inr ''Sorry, I have no plan.''
   \<and> extract_json ex_env ''Sorry, I have no plan.'' = Inl ''JSONDecodeError''
   \<and> (\<exists>p. fst (analyze_dut ex_env ex_agent ex_dut) = Inr p
          \<and> plan (snd (analyze_dut ex_env ex_agent ex_dut)) = Some p
          \<and> TestbenchPlan.name p = ''alu_tb'' \<and> dut_name p = ''alu_core'')
   \<and> fst (call_llm ex_env_fenced ex_agent (analyze_prompt ex_env_fenced ex_dut))
        = Inr ''```json\<newline>{}\<newline>```''
   \<and> extract_json ex_env_fenced ''```json\<newline>{}\<newline>```'' = Inr (JDict [])
   \<and> validate_plan ex_env_fenced (JDict []) = Inl ''ValidationError''
   \<and> (\<exists>p. fst (analyze_dut ex_env_fenced ex_agent ex_dut) = Inr p
          \<and> plan (snd (analyze_dut ex_env_fenced ex_agent ex_dut)) = Some p
          \<and> TestbenchPlan.name p = ''alu_tb'' \<and> dut_name p = ''alu_core'')"
proof -
  have a1: "fst (call_llm ex_env ex_agent (analyze_prompt ex_env ex_dut)) = Inr ''Sorry, I have no plan.''"
    by (simp add: call_llm_def ex_env_def Let_def)
  have a2: "extract_json ex_env ''Sorry, I have no plan.'' = Inl ''JSONDecodeError''"
    by (simp add: extract_json_def ex_env_def strip_fences_def strip_def rstrip_def py_isspace_def Let_def)
  have b1: "fst (call_llm ex_env_fenced ex_agent (analyze_prompt ex_env_fenced ex_dut))
        = Inr ''```json\<newline>{}\<newline>```''"
    by (simp add: call_llm_def ex_env_fenced_def ex_env_def Let_def)
  have b2: "extract_json ex_env_fenced ''```json\<newline>{}\<newline>```'' = Inr (JDict [])"
    by (simp add: extract_json_def ex_env_fenced_def ex_env_def strip_fences_def strip_def
        rstrip_def py_isspace_def Let_def)
  have b3: "validate_plan ex_env_fenced (JDict []) = Inl ''ValidationError''"
    by (simp add: ex_env_fenced_def ex_env_def)
  have n: "DUTSpec.name ex_dut @ ''_tb'' = ''alu_tb''" "module_name ex_dut = ''alu_core''"
    by (simp_all add: ex_dut_def)
  from analyze_dut_falls_back [OF a1 disjI1] a2
  have r1: "\<exists>p. fst (analyze_dut ex_env ex_agent ex_dut) = Inr p
          \<and> plan (snd (analyze_dut ex_env ex_agent ex_dut)) = Some p
          \<and> TestbenchPlan.name p = ''alu_tb'' \<and> dut_name p = ''alu_core''"
    unfolding n by blast
  from analyze_dut_falls_back [OF b1 disjI2] b2 b3
  have r2: "\<exists>p. fst (analyze_dut ex_env_fenced ex_agent ex_dut) = Inr p
          \<and> plan (snd (analyze_dut ex_env_fenced ex_agent ex_dut)) = Some p
          \<and> TestbenchPlan.name p = ''alu_tb'' \<and> dut_name p = ''alu_core''"
    unfolding n by blast
  from a1 a2 r1 b1 b2 b3 r2 show ?thesis by blast
qed

end
